theory Spec2Isabelle
  imports Complex_Main "HOL-Library.AList"
begin

section \<open>Control flow: normal return or exception\<close>

text \<open>
  A JavaScript call either returns or throws. A throwing call leaves the mutations it
  made before the throw in place, so every operation below returns an outcome together
  with the state it leaves.
\<close>

datatype outcome = Returned | Threw

section \<open>EventBus (src/js/core/EventBus.js)\<close>

text \<open>
  A listener as \<open>on\<close> stores it. The callback is a function object: \<open>off\<close> compares
  it by identity, so the model keeps its identity (a number) and takes the behaviour of
  the functions as a parameter \<open>run\<close> of the operations that call them.
\<close>

record listener =
  callback :: nat
  once :: bool
  priority :: int
  lcontext :: "nat option"

text \<open>\<open>this.events\<close>: a Map from event name to the array of its listeners.\<close>

type_synonym bus = "string \<rightharpoonup> listener list"

text \<open>
  The behaviour of the callbacks: function identity, \<open>this\<close> context, data and event
  name to a transformer of the bus and the rest of the world that returns or throws.
\<close>

type_synonym ('d, 'w) runner =
  "nat \<Rightarrow> nat option \<Rightarrow> 'd \<Rightarrow> string \<Rightarrow> bus \<times> 'w \<Rightarrow> outcome \<times> (bus \<times> 'w)"

text \<open>\<open>listeners.splice(index, 1)\<close> at the index \<open>findIndex\<close> returns: the first match.\<close>

fun remove_first :: "('a \<Rightarrow> bool) \<Rightarrow> 'a list \<Rightarrow> 'a list" where
  "remove_first P [] = []"
| "remove_first P (x # xs) = (if P x then xs else x # remove_first P xs)"

definition off :: "string \<Rightarrow> nat \<Rightarrow> bus \<Rightarrow> bool \<times> bus" where
  "off eventName cb events =
     (case events eventName of
        None \<Rightarrow> (False, events)
      | Some listeners \<Rightarrow>
          (if list_ex (\<lambda>l. callback l = cb) listeners then
             (let listeners' = remove_first (\<lambda>l. callback l = cb) listeners
              in (True, if listeners' = [] then events(eventName := None)
                        else events(eventName \<mapsto> listeners')))
           else (False, events)))"

text \<open>
  \<open>executeListener\<close>, the closure of \<open>emit\<close>: the callback runs inside \<open>try\<close>; when it
  returns, \<open>notifiedCount\<close> is incremented and a \<open>once\<close> listener is unsubscribed; when
  it throws, the \<open>catch\<close> logs the error and nothing else happens.
\<close>

definition executeListener ::
  "('d, 'w) runner \<Rightarrow> string \<Rightarrow> 'd \<Rightarrow> listener \<Rightarrow> nat \<times> (bus \<times> 'w) \<Rightarrow> nat \<times> (bus \<times> 'w)" where
  "executeListener run eventName data l = (\<lambda>(notifiedCount, st).
     case run (callback l) (lcontext l) data eventName st of
       (Returned, (events', w')) \<Rightarrow>
         (notifiedCount + 1,
          (if once l then snd (off eventName (callback l) events') else events', w'))
     | (Threw, st') \<Rightarrow> (notifiedCount, st'))"

text \<open>
  The task \<open>emit\<close> hands to \<open>setTimeout\<close> when \<open>options.async\<close> is set, and the loop it
  runs itself otherwise: \<open>listeners.forEach(executeListener)\<close> over the copy of the
  listener array, \<open>notifiedCount\<close> starting at 0.
\<close>

definition run_listeners ::
  "('d, 'w) runner \<Rightarrow> string \<Rightarrow> 'd \<Rightarrow> listener list \<Rightarrow> bus \<times> 'w \<Rightarrow> nat \<times> (bus \<times> 'w)" where
  "run_listeners run eventName data listeners st =
     fold (executeListener run eventName data) listeners (0, st)"

text \<open>
  \<open>emit(eventName, data, options)\<close>. The result is the number \<open>emit\<close> returns, the
  listeners it has deferred to a timer (empty unless \<open>options.async\<close>), and the state.
  The timer fires after \<open>emit\<close> has returned; the deferred task is
  \<open>run_listeners\<close> on the deferred listeners.
\<close>

definition emit ::
  "('d, 'w) runner \<Rightarrow> string \<Rightarrow> 'd \<Rightarrow> bool \<Rightarrow> bus \<times> 'w \<Rightarrow> nat \<times> listener list \<times> (bus \<times> 'w)" where
  "emit run eventName data async st =
     (case fst st eventName of
        None \<Rightarrow> (0, [], st)
      | Some listeners \<Rightarrow>
          if async then (0, listeners, st)
          else (let (notifiedCount, st') = run_listeners run eventName data listeners st
                in (notifiedCount, [], st')))"

text \<open>
  Instrumentation for stating what \<open>emit\<close> does to its listeners: the same callbacks,
  each invocation recorded with its outcome in a trace kept beside the world.
\<close>

definition logged :: "('d, 'w) runner \<Rightarrow> ('d, 'w \<times> (nat \<times> outcome) list) runner" where
  "logged run cb ctx data eventName = (\<lambda>(events, (w, trace)).
     case run cb ctx data eventName (events, w) of
       (out, (events', w')) \<Rightarrow> (out, (events', (w', trace @ [(cb, out)]))))"

definition completed :: "(nat \<times> outcome) list \<Rightarrow> nat" where
  "completed trace = length (filter (\<lambda>e. snd e = Returned) trace)"

text \<open>
  A concrete bus for the examples: three listeners on one event, the second of which
  throws, the third subscribed with \<open>once\<close>.
\<close>

definition demo_runner :: "(unit, unit) runner" where
  "demo_runner cb ctx d n st = (if cb = 1 then (Threw, st) else (Returned, st))"

definition demo_listeners :: "listener list" where
  "demo_listeners =
     [\<lparr>callback = 0, once = False, priority = 0, lcontext = None\<rparr>,
      \<lparr>callback = 1, once = False, priority = 0, lcontext = None\<rparr>,
      \<lparr>callback = 2, once = True, priority = 0, lcontext = None\<rparr>]"

definition demo_bus :: "bus \<times> (unit \<times> (nat \<times> outcome) list)" where
  "demo_bus = ([''drawing-completed'' \<mapsto> demo_listeners], ((), []))"

section \<open>JavaScript numbers and values\<close>

text \<open>
  A JavaScript number is a finite value, an infinity or NaN. A finite value is a binary64
  double, modelled by the real number it stands for. Every arithmetic operation rounds
  its exact result to the nearest double, a tie going to the even mantissa, and gives an
  infinity when the rounded result is out of range. The sign of zero is not modelled (a
  zero divisor counts as positive zero).
\<close>

datatype jsnum = Fin real | PInf | NInf | NaN

text \<open>The integer nearest to a real, a tie going to the even one.\<close>

definition round_half_even :: "real \<Rightarrow> int" where
  "round_half_even r =
     (let f = \<lfloor>r\<rfloor> in
      if r - of_int f < 1 / 2 then f
      else if 1 / 2 < r - of_int f then f + 1
      else if even f then f else f + 1)"

text \<open>
  Rounding to binary64: a value of binary exponent \<open>e\<close> (at least \<open>-1022\<close>, the
  exponent of the subnormal numbers) is rounded to a multiple of \<open>2^(e - 52)\<close>, so that
  the mantissa has 53 bits; a result of magnitude \<open>2^1024\<close> or more is an infinity.
\<close>

definition to_double :: "real \<Rightarrow> jsnum" where
  "to_double x =
     (if x = 0 then Fin 0
      else let e = max \<lfloor>log 2 \<bar>x\<bar>\<rfloor> (- 1022);
               u = 2 powr of_int (e - 52);
               y = of_int (round_half_even (x / u)) * u
           in if 2 ^ 1024 \<le> \<bar>y\<bar> then (if 0 < x then PInf else NInf) else Fin y)"

text \<open>The value of a decimal literal of the source, such as \<open>0.236\<close>: the nearest double.\<close>

definition double_of :: "real \<Rightarrow> real" where
  "double_of x = (case to_double x of Fin y \<Rightarrow> y | _ \<Rightarrow> x)"

text \<open>What a property of a drawing can hold: a number, \<open>null\<close>, or nothing (\<open>undefined\<close>).\<close>

datatype jsval = Undefined | Null | Num jsnum

fun to_number :: "jsval \<Rightarrow> jsnum" where
  "to_number Undefined = NaN"
| "to_number Null = Fin 0"
| "to_number (Num n) = n"

fun js_neg :: "jsnum \<Rightarrow> jsnum" where
  "js_neg (Fin a) = Fin (- a)"
| "js_neg PInf = NInf"
| "js_neg NInf = PInf"
| "js_neg NaN = NaN"

fun js_add :: "jsnum \<Rightarrow> jsnum \<Rightarrow> jsnum" where
  "js_add NaN _ = NaN"
| "js_add _ NaN = NaN"
| "js_add (Fin a) (Fin b) = to_double (a + b)"
| "js_add PInf NInf = NaN"
| "js_add NInf PInf = NaN"
| "js_add PInf _ = PInf"
| "js_add _ PInf = PInf"
| "js_add NInf _ = NInf"
| "js_add _ NInf = NInf"

definition js_sub :: "jsnum \<Rightarrow> jsnum \<Rightarrow> jsnum" where
  "js_sub a b = js_add a (js_neg b)"

fun js_mul :: "jsnum \<Rightarrow> jsnum \<Rightarrow> jsnum" where
  "js_mul NaN _ = NaN"
| "js_mul _ NaN = NaN"
| "js_mul (Fin a) (Fin b) = to_double (a * b)"
| "js_mul (Fin a) i = (if a = 0 then NaN else if 0 < a then i else js_neg i)"
| "js_mul i (Fin a) = (if a = 0 then NaN else if 0 < a then i else js_neg i)"
| "js_mul PInf i = i"
| "js_mul NInf i = js_neg i"

fun js_div :: "jsnum \<Rightarrow> jsnum \<Rightarrow> jsnum" where
  "js_div NaN _ = NaN"
| "js_div _ NaN = NaN"
| "js_div (Fin a) (Fin b) =
     (if b = 0 then (if a = 0 then NaN else if 0 < a then PInf else NInf)
      else to_double (a / b))"
| "js_div (Fin a) _ = Fin 0"
| "js_div i (Fin b) = (if 0 \<le> b then i else js_neg i)"
| "js_div _ _ = NaN"

text \<open>\<open>Math.sqrt\<close>: the square root, rounded as the other operations are.\<close>

fun js_sqrt :: "jsnum \<Rightarrow> jsnum" where
  "js_sqrt (Fin a) = (if a < 0 then NaN else to_double (sqrt a))"
| "js_sqrt PInf = PInf"
| "js_sqrt NInf = NaN"
| "js_sqrt NaN = NaN"

fun js_abs :: "jsnum \<Rightarrow> jsnum" where
  "js_abs (Fin a) = Fin \<bar>a\<bar>"
| "js_abs PInf = PInf"
| "js_abs NInf = PInf"
| "js_abs NaN = NaN"

text \<open>\<open>Math.round\<close>: to the nearest integer, a half rounded up.\<close>

fun js_round :: "jsnum \<Rightarrow> jsnum" where
  "js_round (Fin a) = Fin (of_int \<lfloor>a + 1 / 2\<rfloor>)"
| "js_round i = i"

text \<open>\<open>a <= b\<close> and \<open>a < b\<close> on numbers: false as soon as one side is NaN.\<close>

fun js_le :: "jsnum \<Rightarrow> jsnum \<Rightarrow> bool" where
  "js_le NaN _ = False"
| "js_le _ NaN = False"
| "js_le (Fin a) (Fin b) = (a \<le> b)"
| "js_le NInf _ = True"
| "js_le _ PInf = True"
| "js_le _ _ = False"

fun js_lt :: "jsnum \<Rightarrow> jsnum \<Rightarrow> bool" where
  "js_lt NaN _ = False"
| "js_lt _ NaN = False"
| "js_lt (Fin a) (Fin b) = (a < b)"
| "js_lt PInf _ = False"
| "js_lt _ NInf = False"
| "js_lt _ _ = True"

text \<open>
  \<open>Math.atan2(y, x)\<close>, on finite arguments and on the others; the result is taken as the
  double nearest to the exact angle.
\<close>

definition atan2 :: "real \<Rightarrow> real \<Rightarrow> real" where
  "atan2 y x =
     (if 0 < x then arctan (y / x)
      else if x < 0 then (if 0 \<le> y then arctan (y / x) + pi else arctan (y / x) - pi)
      else if 0 < y then pi / 2 else if y < 0 then - (pi / 2) else 0)"

fun js_atan2 :: "jsnum \<Rightarrow> jsnum \<Rightarrow> jsnum" where
  "js_atan2 NaN _ = NaN"
| "js_atan2 _ NaN = NaN"
| "js_atan2 (Fin y) (Fin x) = to_double (atan2 y x)"
| "js_atan2 (Fin y) PInf = Fin 0"
| "js_atan2 (Fin y) NInf = to_double (if 0 \<le> y then pi else - pi)"
| "js_atan2 PInf (Fin x) = to_double (pi / 2)"
| "js_atan2 PInf PInf = to_double (pi / 4)"
| "js_atan2 PInf NInf = to_double (3 * pi / 4)"
| "js_atan2 NInf (Fin x) = to_double (- (pi / 2))"
| "js_atan2 NInf PInf = to_double (- (pi / 4))"
| "js_atan2 NInf NInf = to_double (- (3 * pi / 4))"

text \<open>
  \<open>x.toFixed(n)\<close> prints the decimal with \<open>n\<close> digits nearest to \<open>x\<close>, a tie going to
  the larger magnitude; the model keeps the decimal printed (a real, not a double), not
  the string.
\<close>

fun toFixed :: "nat \<Rightarrow> jsnum \<Rightarrow> jsnum" where
  "toFixed n (Fin a) = Fin (sgn a * of_int \<lfloor>\<bar>a\<bar> * 10 ^ n + 1 / 2\<rfloor> / 10 ^ n)"
| "toFixed n i = i"

text \<open>Truthiness of a value (\<open>!v\<close>, \<open>v && ...\<close>, \<open>v || ...\<close>): 0, NaN, \<open>null\<close>, \<open>undefined\<close> are falsy.\<close>

fun truthy :: "jsval \<Rightarrow> bool" where
  "truthy Undefined = False"
| "truthy Null = False"
| "truthy (Num (Fin a)) = (a \<noteq> 0)"
| "truthy (Num NaN) = False"
| "truthy (Num _) = True"

text \<open>\<open>a ?? b\<close>: \<open>b\<close> when \<open>a\<close> is \<open>null\<close> or \<open>undefined\<close>.\<close>

fun nullish_or :: "jsval \<Rightarrow> jsval \<Rightarrow> jsval" where
  "nullish_or Undefined b = b"
| "nullish_or Null b = b"
| "nullish_or a b = a"

section \<open>Drawing data\<close>

text \<open>
  An options object is a finite mapping from property names to values;
  \<open>{ ...a, ...b }\<close> is \<open>a ++ b\<close> (the right operand wins).
\<close>

datatype optv = OBool bool | ONum real | OStr string | OLevels "real list"
  | OColors "(real \<times> string) list"

type_synonym options = "string \<rightharpoonup> optv"

text \<open>Truthiness of an option read by name (a missing one is \<open>undefined\<close>; an array is truthy).\<close>

fun opt_truthy :: "optv option \<Rightarrow> bool" where
  "opt_truthy None = False"
| "opt_truthy (Some (OBool b)) = b"
| "opt_truthy (Some (ONum n)) = (n \<noteq> 0)"
| "opt_truthy (Some (OStr s)) = (s \<noteq> [])"
| "opt_truthy (Some (OLevels ls)) = True"
| "opt_truthy (Some (OColors cs)) = True"

text \<open>
  A point of a drawing, and the \<open>coords\<close> object the manager hands to a tool:
  \<open>{time, price, screenX, screenY}\<close>. A property the object does not have reads as
  \<open>Undefined\<close>.
\<close>

record point =
  time :: jsval
  price :: jsval
  screenX :: jsval
  screenY :: jsval

text \<open>One entry of a Fibonacci level table.\<close>

record fib_level =
  level :: real
  percentage :: jsnum
  level_price :: jsnum
  color :: "string option"

text \<open>
  The drawing data object a tool creates and mutates. JavaScript objects are open, so the
  record has the properties of all three kinds; a property a kind never sets stays
  \<open>None\<close> or \<open>Undefined\<close>.
\<close>

record drawing =
  dtype :: string
  startPoint :: "point option"
  endPoint :: "point option"
  d_price :: jsval
  levels :: "fib_level list option"
  d_options :: options
  timestamp :: nat
  lineLength :: jsval
  angle :: jsval
  slope :: jsval
  priceDifference :: jsval
  timeDifference :: jsval
  priceRange :: jsval

section \<open>Tools (BaseTool, TrendLineTool, FibRetracementTool, HorizontalLineTool)\<close>

datatype tool_kind = TrendLine | HorizontalLine | FibRetracement

text \<open>A tool object: its class, \<open>this.options\<close>, \<open>this.cursor\<close> and \<open>this.isActive\<close>.\<close>

record tool =
  kind :: tool_kind
  t_options :: options
  cursor :: string
  t_isActive :: bool

fun getName :: "tool \<Rightarrow> string" where
  "getName t = (case kind t of TrendLine \<Rightarrow> ''TrendLine''
     | HorizontalLine \<Rightarrow> ''HorizontalLine'' | FibRetracement \<Rightarrow> ''FibRetracement'')"

text \<open>The constructors: \<open>BaseTool\<close>'s defaults, overridden by the subclass's, overridden by \<open>options\<close>.\<close>

definition base_defaults :: options where
  "base_defaults = map_of
     [(''lineWidth'', ONum 2), (''lineColor'', OStr ''#FF6B6B''),
      (''fillColor'', OStr ''rgba(255, 107, 107, 0.1)'')]"

definition trendline_defaults :: options where
  "trendline_defaults = map_of
     [(''lineWidth'', ONum 2), (''lineColor'', OStr ''#FF6B6B''),
      (''extendLeft'', OBool False), (''extendRight'', OBool False),
      (''snapToPrice'', OBool True)]"

text \<open>
  The ratios \<open>[0, 0.236, 0.382, 0.5, 0.618, 0.786, 1]\<close>: each literal is the double
  nearest to the decimal written. A key of \<open>levelColors\<close> is the decimal string of a
  ratio, found again by the double it denotes.
\<close>

definition fib_default_levels :: "real list" where
  "fib_default_levels =
     [0, double_of 0.236, double_of 0.382, double_of 0.5, double_of 0.618, double_of 0.786, 1]"

definition fib_defaults :: options where
  "fib_defaults = map_of
     [(''lineWidth'', ONum 1), (''lineColor'', OStr ''#9B59B6''),
      (''fillColor'', OStr ''rgba(155, 89, 182, 0.1)''),
      (''extendHorizontal'', OBool True), (''showLabels'', OBool True),
      (''showPercentage'', OBool True),
      (''levels'', OLevels fib_default_levels),
      (''levelColors'', OColors
         [(0, ''#FF6B6B''), (double_of 0.236, ''#4ECDC4''), (double_of 0.382, ''#45B7D1''),
          (double_of 0.5, ''#96CEB4''), (double_of 0.618, ''#FFEAA7''),
          (double_of 0.786, ''#DDA0DD''), (1, ''#FF6B6B'')]),
      (''snapToPrice'', OBool True)]"

definition horizontal_defaults :: options where
  "horizontal_defaults = map_of
     [(''lineWidth'', ONum 2), (''lineColor'', OStr ''#4ECDC4''),
      (''lineStyle'', OStr ''solid''), (''extendLeft'', OBool True),
      (''extendRight'', OBool True), (''showPrice'', OBool True),
      (''snapToPrice'', OBool True)]"

definition new_tool :: "tool_kind \<Rightarrow> options \<Rightarrow> tool" where
  "new_tool k opts =
     \<lparr>kind = k,
      t_options = base_defaults ++
        ((case k of TrendLine \<Rightarrow> trendline_defaults | HorizontalLine \<Rightarrow> horizontal_defaults
          | FibRetracement \<Rightarrow> fib_defaults) ++ opts),
      cursor = ''crosshair'',
      t_isActive = False\<rparr>"

text \<open>The snapping all three tools apply: \<open>Math.round(coords.price * 100) / 100\<close>.\<close>

definition snap_price :: "jsval \<Rightarrow> jsval" where
  "snap_price p = Num (js_div (js_round (js_mul (to_number p) (Fin 100))) (Fin 100))"

text \<open>A drawing with nothing set but its type, options and timestamp.\<close>

definition blank_drawing :: "string \<Rightarrow> options \<Rightarrow> nat \<Rightarrow> drawing" where
  "blank_drawing ty opts now =
     \<lparr>dtype = ty, startPoint = None, endPoint = None, d_price = Undefined, levels = None,
      d_options = opts, timestamp = now, lineLength = Undefined, angle = Undefined,
      slope = Undefined, priceDifference = Undefined, timeDifference = Undefined,
      priceRange = Undefined\<rparr>"

subsection \<open>TrendLineTool (src/js/drawings/DrawingManager.js, second part)\<close>

definition tl_createDrawing :: "tool \<Rightarrow> point \<Rightarrow> options \<Rightarrow> nat \<Rightarrow> drawing" where
  "tl_createDrawing this coords opts now =
     (blank_drawing ''TrendLine'' (t_options this ++ opts) now)
       \<lparr>startPoint := Some \<lparr>time = time coords, price = price coords,
                             screenX = screenX coords, screenY = screenY coords\<rparr>,
        endPoint := Some \<lparr>time = time coords, price = price coords,
                           screenX = screenX coords, screenY = screenY coords\<rparr>\<rparr>"

definition tl_updateDrawingData :: "drawing \<Rightarrow> point \<Rightarrow> drawing" where
  "tl_updateDrawingData d coords =
     (if endPoint d = None then d
      else let finalCoords =
                 (if opt_truthy (d_options d ''snapToPrice'') \<and> price coords \<noteq> Null
                  then coords\<lparr>price := snap_price (price coords)\<rparr> else coords)
           in d\<lparr>endPoint := Some \<lparr>time = time finalCoords, price = price finalCoords,
                                   screenX = screenX finalCoords,
                                   screenY = screenY finalCoords\<rparr>\<rparr>)"

text \<open>
  \<open>finalizeDrawingData\<close> reads \<open>drawing.endPoint.screenX\<close> and
  \<open>drawing.startPoint.screenX\<close> without a check: a drawing that lacks a point makes it
  throw (after the update).
\<close>

definition tl_finalizeDrawingData :: "drawing \<Rightarrow> point \<Rightarrow> outcome \<times> drawing" where
  "tl_finalizeDrawingData d coords =
     (let d1 = tl_updateDrawingData d coords in
      case (startPoint d1, endPoint d1) of
        (Some sp, Some ep) \<Rightarrow>
          (let dx = js_sub (to_number (screenX ep)) (to_number (screenX sp));
               dy = js_sub (to_number (screenY ep)) (to_number (screenY sp));
               q = Num (js_div dy dx)
           in (Returned,
               d1\<lparr>lineLength := Num (js_sqrt (js_add (js_mul dx dx) (js_mul dy dy))),
                  angle := Num (js_atan2 dy dx),
                  slope := (if truthy q then q else Num (Fin 0)),
                  priceDifference := Num (js_sub (to_number (price ep)) (to_number (price sp))),
                  timeDifference := Num (js_sub (to_number (time ep)) (to_number (time sp)))\<rparr>))
      | _ \<Rightarrow> (Threw, d1))"

text \<open>\<open>toJSON\<close>: the serialized form. It throws on a drawing that lacks a point.\<close>

record json_drawing =
  j_type :: string
  j_startPoint :: point
  j_endPoint :: point
  j_levels :: "optv option"
  j_options :: options
  j_timestamp :: nat

definition tl_toJSON :: "drawing \<Rightarrow> json_drawing option" where
  "tl_toJSON d =
     (case (startPoint d, endPoint d) of
        (Some sp, Some ep) \<Rightarrow>
          Some \<lparr>j_type = dtype d,
                j_startPoint = \<lparr>time = time sp, price = price sp,
                                 screenX = Undefined, screenY = Undefined\<rparr>,
                j_endPoint = \<lparr>time = time ep, price = price ep,
                               screenX = Undefined, screenY = Undefined\<rparr>,
                j_levels = None,
                j_options = d_options d,
                j_timestamp = timestamp d\<rparr>
      | _ \<Rightarrow> None)"

text \<open>
  \<open>fromJSON(data, coordinateMapper)\<close>: the mapper is the host's conversion of a
  (time, price) pair to a screen point \<open>{x, y}\<close>; \<open>data.timestamp || Date.now()\<close>.
  No derived property is set.
\<close>

type_synonym mapper = "jsval \<Rightarrow> jsval \<Rightarrow> jsval \<times> jsval"

definition tl_fromJSON :: "tool \<Rightarrow> json_drawing \<Rightarrow> mapper \<Rightarrow> nat \<Rightarrow> drawing" where
  "tl_fromJSON this data coordinateMapper now =
     (let screenStart = coordinateMapper (time (j_startPoint data)) (price (j_startPoint data));
          screenEnd = coordinateMapper (time (j_endPoint data)) (price (j_endPoint data))
      in (blank_drawing (j_type data) (t_options this ++ j_options data)
            (if j_timestamp data \<noteq> 0 then j_timestamp data else now))
           \<lparr>startPoint := Some \<lparr>time = time (j_startPoint data),
                                 price = price (j_startPoint data),
                                 screenX = fst screenStart, screenY = snd screenStart\<rparr>,
            endPoint := Some \<lparr>time = time (j_endPoint data), price = price (j_endPoint data),
                               screenX = fst screenEnd, screenY = snd screenEnd\<rparr>\<rparr>)"

text \<open>
  \<open>drawLabel\<close>: what is written beside the line. \<open>None\<close> is the early return (no label).
  The texts are kept as the sign prefix (\<open>True\<close> for a leading \<open>+\<close>) and the number
  \<open>toFixed(2)\<close> prints; the comparison \<open>percentDiff >= 0\<close> is on the printed number.
  \<open>draw\<close> has checked both points before the call; without them the property reads throw.
\<close>

record label =
  priceDiffText :: "bool \<times> jsnum"
  percentDiffText :: "bool \<times> jsnum"
  midX :: jsnum
  midY :: jsnum

definition label_text :: "jsnum \<Rightarrow> jsnum \<Rightarrow> jsnum \<Rightarrow> jsnum \<Rightarrow> jsnum \<Rightarrow> label" where
  "label_text priceDiff startPrice mx my pad =
     (let percentDiff = toFixed 2 (js_mul (js_div priceDiff startPrice) (Fin 100))
      in \<lparr>priceDiffText = (js_le (Fin 0) priceDiff, toFixed 2 priceDiff),
          percentDiffText = (js_le (Fin 0) percentDiff, percentDiff),
          midX = mx, midY = js_sub my pad\<rparr>)"

definition tl_drawLabel :: "drawing \<Rightarrow> outcome \<times> label option" where
  "tl_drawLabel d =
     (if \<not> truthy (priceDifference d) then (Returned, None)
      else case (startPoint d, endPoint d) of
        (Some sp, Some ep) \<Rightarrow>
          (Returned, Some (label_text (to_number (priceDifference d)) (to_number (price sp))
             (js_div (js_add (to_number (screenX sp)) (to_number (screenX ep))) (Fin 2))
             (js_div (js_add (to_number (screenY sp)) (to_number (screenY ep))) (Fin 2))
             (Fin 4)))
      | _ \<Rightarrow> (Threw, None))"

text \<open>The label step of \<open>draw\<close>: \<open>if (drawing.lineLength && drawing.lineLength > 50)\<close>.\<close>

definition tl_draw_label :: "drawing \<Rightarrow> outcome \<times> label option" where
  "tl_draw_label d =
     (if startPoint d = None \<or> endPoint d = None then (Returned, None)
      else if truthy (lineLength d) \<and> js_lt (Fin 50) (to_number (lineLength d))
      then tl_drawLabel d else (Returned, None))"



subsection \<open>TrendLinePrimitive.drawLabel (src/js/drawings/primitives/TrendLinePrimitive.js)\<close>

text \<open>
  The primitive maps the anchors to screen coordinates at paint time and passes them in.
  \<open>drawTrendLine\<close> calls \<open>drawLabel\<close> when the mapped line is longer than 50 pixels and
  \<open>priceDifference\<close> is truthy.
\<close>

definition prim_drawLabel ::
  "drawing \<Rightarrow> jsnum \<Rightarrow> jsnum \<Rightarrow> jsnum \<Rightarrow> jsnum \<Rightarrow> label option" where
  "prim_drawLabel drawingData startX startY endX endY =
     (if \<not> truthy (priceDifference drawingData) then None
      else case startPoint drawingData of
        None \<Rightarrow> None
      | Some sp \<Rightarrow>
          Some (label_text (to_number (priceDifference drawingData)) (to_number (price sp))
            (js_div (js_add startX endX) (Fin 2)) (js_div (js_add startY endY) (Fin 2))
            (Fin 4)))"

definition prim_draw_label ::
  "drawing \<Rightarrow> jsnum \<Rightarrow> jsnum \<Rightarrow> jsnum \<Rightarrow> jsnum \<Rightarrow> label option" where
  "prim_draw_label drawingData startX startY endX endY =
     (let dx = js_sub endX startX; dy = js_sub endY startY;
          len = js_sqrt (js_add (js_mul dx dx) (js_mul dy dy))
      in if js_lt (Fin 50) len \<and> truthy (priceDifference drawingData)
         then prim_drawLabel drawingData startX startY endX endY else None)"

subsection \<open>FibRetracementTool (src/unnamed/part_001)\<close>

text \<open>
  \<open>options.levels || this.options.levels || []\<close>: the configured ratios. The \<open>levels\<close>
  option, when present, is an array (an empty array is truthy).
\<close>

fun levels_of :: "optv option \<Rightarrow> real list option" where
  "levels_of (Some (OLevels ls)) = Some ls"
| "levels_of _ = None"

text \<open>\<open>(options.levelColors && options.levelColors[level]) || this.options.lineColor\<close>.\<close>

definition level_color :: "tool \<Rightarrow> options \<Rightarrow> real \<Rightarrow> string option" where
  "level_color this opts l =
     (let own = (case opts ''levelColors'' of
                   Some (OColors cs) \<Rightarrow> map_of cs l
                 | _ \<Rightarrow> None)
      in case own of
           Some c \<Rightarrow> if c \<noteq> [] then Some c
                     else (case t_options this ''lineColor'' of Some (OStr c') \<Rightarrow> Some c' | _ \<Rightarrow> None)
         | None \<Rightarrow> (case t_options this ''lineColor'' of Some (OStr c') \<Rightarrow> Some c' | _ \<Rightarrow> None))"

definition calculateFibLevels ::
  "tool \<Rightarrow> point option \<Rightarrow> point option \<Rightarrow> options \<Rightarrow> fib_level list" where
  "calculateFibLevels this startPt endPt opts =
     (case (startPt, endPt) of
        (Some sp, Some ep) \<Rightarrow>
          (let priceDiff = js_sub (to_number (nullish_or (price ep) (price sp)))
                                  (to_number (price sp));
               levelOptions = (case levels_of (opts ''levels'') of
                                 Some ls \<Rightarrow> ls
                               | None \<Rightarrow> (case levels_of (t_options this ''levels'') of
                                            Some ls \<Rightarrow> ls | None \<Rightarrow> []))
           in map (\<lambda>l. \<lparr>level = l,
                         percentage = toFixed 1 (js_mul (Fin l) (Fin 100)),
                         level_price = js_add (to_number (price sp))
                                              (js_mul priceDiff (Fin l)),
                         color = level_color this opts l\<rparr>) levelOptions)
      | _ \<Rightarrow> [])"

definition fib_createDrawing :: "tool \<Rightarrow> point \<Rightarrow> options \<Rightarrow> nat \<Rightarrow> drawing" where
  "fib_createDrawing this coords opts now =
     (let drawingOptions = t_options this ++ opts;
          sp = \<lparr>time = time coords, price = price coords,
                screenX = Undefined, screenY = Undefined\<rparr>;
          ep = \<lparr>time = time coords, price = price coords,
                screenX = Undefined, screenY = Undefined\<rparr>
      in (blank_drawing ''FibRetracement'' drawingOptions now)
           \<lparr>startPoint := Some sp, endPoint := Some ep,
            levels := Some (calculateFibLevels this (Some sp) (Some ep) drawingOptions)\<rparr>)"

definition fib_updateDrawingData :: "tool \<Rightarrow> drawing \<Rightarrow> point \<Rightarrow> drawing" where
  "fib_updateDrawingData this d coords =
     (if endPoint d = None then d
      else let finalCoords =
                 (if opt_truthy (d_options d ''snapToPrice'') \<and> price coords \<noteq> Null
                  then coords\<lparr>price := snap_price (price coords)\<rparr> else coords);
               ep = \<lparr>time = time finalCoords, price = price finalCoords,
                     screenX = Undefined, screenY = Undefined\<rparr>
           in d\<lparr>endPoint := Some ep,
                levels := Some (calculateFibLevels this (startPoint d) (Some ep) (d_options d))\<rparr>)"

definition fib_finalizeDrawingData :: "tool \<Rightarrow> drawing \<Rightarrow> point \<Rightarrow> outcome \<times> drawing" where
  "fib_finalizeDrawingData this d coords =
     (let d1 = fib_updateDrawingData this d coords in
      case (startPoint d1, endPoint d1) of
        (Some sp, Some ep) \<Rightarrow>
          (let diff = js_sub (to_number (price ep)) (to_number (price sp))
           in (Returned,
               d1\<lparr>priceRange := Num (js_abs diff),
                  priceDifference := Num diff,
                  timeDifference := Num (js_sub (to_number (time ep)) (to_number (time sp)))\<rparr>))
      | _ \<Rightarrow> (Threw, d1))"

definition fib_toJSON :: "drawing \<Rightarrow> json_drawing option" where
  "fib_toJSON d =
     (case (startPoint d, endPoint d) of
        (Some sp, Some ep) \<Rightarrow>
          Some \<lparr>j_type = dtype d,
                j_startPoint = \<lparr>time = time sp, price = price sp,
                                 screenX = Undefined, screenY = Undefined\<rparr>,
                j_endPoint = \<lparr>time = time ep, price = price ep,
                               screenX = Undefined, screenY = Undefined\<rparr>,
                j_levels = d_options d ''levels'',
                j_options = d_options d,
                j_timestamp = timestamp d\<rparr>
      | _ \<Rightarrow> None)"

text \<open>
  \<open>fromJSON\<close> recalculates the level table with \<open>calculateFibLevels(startPoint, endPoint)\<close>:
  the third parameter takes its default, the tool's own \<open>this.options\<close>.
\<close>

definition fib_fromJSON :: "tool \<Rightarrow> json_drawing \<Rightarrow> mapper \<Rightarrow> nat \<Rightarrow> drawing" where
  "fib_fromJSON this data coordinateMapper now =
     (let screenStart = coordinateMapper (time (j_startPoint data)) (price (j_startPoint data));
          screenEnd = coordinateMapper (time (j_endPoint data)) (price (j_endPoint data));
          sp = \<lparr>time = time (j_startPoint data), price = price (j_startPoint data),
                screenX = fst screenStart, screenY = snd screenStart\<rparr>;
          ep = \<lparr>time = time (j_endPoint data), price = price (j_endPoint data),
                screenX = fst screenEnd, screenY = snd screenEnd\<rparr>
      in (blank_drawing (j_type data) (t_options this ++ j_options data)
            (if j_timestamp data \<noteq> 0 then j_timestamp data else now))
           \<lparr>startPoint := Some sp, endPoint := Some ep,
            levels := Some (calculateFibLevels this (Some sp) (Some ep) (t_options this))\<rparr>)"

subsection \<open>HorizontalLineTool (src/js/drawings/tools/HorizontalLineTool.js)\<close>

definition hl_createDrawing :: "tool \<Rightarrow> point \<Rightarrow> options \<Rightarrow> nat \<Rightarrow> drawing" where
  "hl_createDrawing this coords opts now =
     (blank_drawing ''HorizontalLine'' (t_options this ++ opts) now)
       \<lparr>d_price := (if opt_truthy (opts ''snapToPrice'') \<and> price coords \<noteq> Null
                    then snap_price (price coords) else price coords)\<rparr>"

definition hl_updateDrawingData :: "drawing \<Rightarrow> point \<Rightarrow> drawing" where
  "hl_updateDrawingData d coords =
     (if opt_truthy (d_options d ''snapToPrice'') \<and> price coords \<noteq> Null
      then d\<lparr>d_price := snap_price (price coords)\<rparr> else d)"

text \<open>
  \<open>onHover\<close>: \<open>getLastPrice()\<close> returns \<open>null\<close>, so the cursor becomes a pointer when
  \<open>|coords.price - null| < 0.01\<close>.
\<close>

definition hl_onHover :: "tool \<Rightarrow> point \<Rightarrow> tool" where
  "hl_onHover this coords =
     (if js_lt (js_abs (js_sub (to_number (price coords)) (to_number Null)))
          (Fin (double_of 0.01))
      then this\<lparr>cursor := ''pointer''\<rparr> else this\<lparr>cursor := ''crosshair''\<rparr>)"

subsection \<open>BaseTool: the entry points the manager calls\<close>

definition createDrawing :: "tool \<Rightarrow> point \<Rightarrow> options \<Rightarrow> nat \<Rightarrow> drawing" where
  "createDrawing this coords opts now =
     (case kind this of
        TrendLine \<Rightarrow> tl_createDrawing this coords opts now
      | HorizontalLine \<Rightarrow> hl_createDrawing this coords opts now
      | FibRetracement \<Rightarrow> fib_createDrawing this coords opts now)"

definition startDrawing :: "tool \<Rightarrow> point \<Rightarrow> options \<Rightarrow> nat \<Rightarrow> drawing" where
  "startDrawing this coords opts now = createDrawing this coords (t_options this ++ opts) now"

definition updateDrawing :: "tool \<Rightarrow> drawing \<Rightarrow> point \<Rightarrow> drawing" where
  "updateDrawing this d coords =
     (case kind this of
        TrendLine \<Rightarrow> tl_updateDrawingData d coords
      | HorizontalLine \<Rightarrow> hl_updateDrawingData d coords
      | FibRetracement \<Rightarrow> fib_updateDrawingData this d coords)"

definition finishDrawing :: "tool \<Rightarrow> drawing \<Rightarrow> point \<Rightarrow> outcome \<times> drawing" where
  "finishDrawing this d coords =
     (case kind this of
        TrendLine \<Rightarrow> tl_finalizeDrawingData d coords
      | HorizontalLine \<Rightarrow> (Returned, hl_updateDrawingData d coords)
      | FibRetracement \<Rightarrow> fib_finalizeDrawingData this d coords)"

definition onHover :: "tool \<Rightarrow> point \<Rightarrow> tool" where
  "onHover this coords =
     (case kind this of HorizontalLine \<Rightarrow> hl_onHover this coords | _ \<Rightarrow> this)"

subsection \<open>The geometry the hit test is specified against\<close>





section \<open>DrawingManager, primitive-based (src/js/dataProcessor.js, second part)\<close>

subsection \<open>The host chart and the manager's state\<close>

text \<open>
  Calls into the host chart (Lightweight Charts). Each can throw; which ones do is a
  parameter of every operation. \<open>Repaint\<close> is \<open>chart.applyOptions({})\<close>, \<open>NavOff\<close> and
  \<open>NavRestore\<close> are the two \<open>applyOptions\<close> calls of the navigation lock.
\<close>

datatype host_call = NavOff | NavRestore | Repaint | AttachPrimitive nat | DetachPrimitive nat

record host_env =
  throws :: "host_call \<Rightarrow> bool"
  primitive_throws :: bool
  rect_left :: real
  rect_top :: real
  coordinateToTime :: "real \<Rightarrow> jsval option"
  coordinateToPrice :: "real \<Rightarrow> jsval option"
  TrendLineTool_defined :: bool

text \<open>A \<open>TrendLinePrimitive\<close>: an object (its identity), the drawing data it paints, its options.\<close>

record primitive =
  prim_ref :: nat
  drawingData :: drawing
  prim_options :: options

text \<open>
  An entry of \<open>this.drawings\<close>. A committed gesture sets every property; an imported
  record brings whatever it has.
\<close>

record entry =
  e_id :: string
  e_tool :: "string option"
  e_data :: "drawing option"
  e_primitive :: "primitive option"
  e_timestamp :: "nat option"

text \<open>What the manager publishes on the event bus, in order.\<close>

datatype emitted =
    DrawingToolActivated string
  | DrawingToolDeactivated
  | DrawingStarted string point
  | DrawingMouseMove string point bool
  | DrawingCompleted string point bool
  | DrawingCancelled string
  | AllDrawingsCleared
  | DrawingRemoved string
  | DrawingsImported nat

text \<open>
  The manager. Tools are objects shared between the registry \<open>this.tools\<close>, the field
  \<open>this.currentTool\<close> and the callers, so they live in a store (\<open>heap\<close>) and are named by
  reference. \<open>this.drawings\<close> is a Map: an association list in insertion order.
  \<open>chart_ok\<close> says that \<open>this.chart.chart\<close> and the series exist. \<open>attached\<close> is the
  host's list of attached primitives, \<open>host_calls\<close> the host calls that have returned,
  \<open>emitted\<close> the events published.
\<close>

record dm =
  chart_ok :: bool
  isActive :: bool
  currentTool :: "nat option"
  isDrawing :: bool
  currentDrawing :: "drawing option"
  drawings :: "(string \<times> entry) list"
  m_options :: options
  navigationLocked :: bool
  originalNavigationOptions :: bool
  tools :: "string \<rightharpoonup> nat"
  listening :: bool
  container_cursor :: string
  heap :: "nat \<Rightarrow> tool"
  next_ref :: nat
  attached :: "primitive list"
  host_calls :: "host_call list"
  emitted :: "emitted list"

record mouse_event =
  clientX :: real
  clientY :: real

definition manager_defaults :: options where
  "manager_defaults = map_of
     [(''lineWidth'', ONum 2), (''lineColor'', OStr ''#FF6B6B''),
      (''fillColor'', OStr ''rgba(255, 107, 107, 0.1)''),
      (''snapToPrice'', OBool True), (''snapToTime'', OBool True),
      (''enableUndo'', OBool True), (''maxDrawings'', ONum 100)]"

text \<open>
  The constructor: nothing active, no drawing, navigation unlocked, the navigation
  defaults cached, and the TrendLine tool registered when its class is loaded.
\<close>

definition new_DrawingManager :: "host_env \<Rightarrow> bool \<Rightarrow> options \<Rightarrow> dm" where
  "new_DrawingManager env chart opts =
     \<lparr>chart_ok = chart, isActive = False, currentTool = None, isDrawing = False,
      currentDrawing = None, drawings = [], m_options = manager_defaults ++ opts,
      navigationLocked = False, originalNavigationOptions = True,
      tools = (if TrendLineTool_defined env then [''trendline'' \<mapsto> 0] else Map.empty),
      listening = False, container_cursor = '''',
      heap = (\<lambda>_. new_tool TrendLine Map.empty),
      next_ref = (if TrendLineTool_defined env then 1 else 0),
      attached = [], host_calls = [], emitted = []\<rparr>"

text \<open>Sequencing: the rest of a method runs only when the call before it returned.\<close>

definition and_then :: "outcome \<times> 's \<Rightarrow> ('s \<Rightarrow> outcome \<times> 's) \<Rightarrow> outcome \<times> 's" where
  "and_then r f = (case r of (Returned, s) \<Rightarrow> f s | (Threw, s) \<Rightarrow> (Threw, s))"

text \<open>A host call: a \<open>TypeError\<close> without the chart, the host's own throw, or a logged return.\<close>

definition host :: "host_env \<Rightarrow> host_call \<Rightarrow> dm \<Rightarrow> outcome \<times> dm" where
  "host env c s =
     (if \<not> chart_ok s \<or> throws env c then (Threw, s)
      else (Returned, s\<lparr>host_calls := host_calls s @ [c]\<rparr>))"

definition publish :: "emitted \<Rightarrow> dm \<Rightarrow> dm" where
  "publish e s = s\<lparr>emitted := emitted s @ [e]\<rparr>"

subsection \<open>The navigation lock\<close>

definition disableNavigation :: "host_env \<Rightarrow> dm \<Rightarrow> outcome \<times> dm" where
  "disableNavigation env s =
     (if \<not> chart_ok s \<or> navigationLocked s then (Returned, s)
      else and_then (host env NavOff s) (\<lambda>s1. (Returned, s1\<lparr>navigationLocked := True\<rparr>)))"

definition restoreNavigation :: "host_env \<Rightarrow> dm \<Rightarrow> outcome \<times> dm" where
  "restoreNavigation env s =
     (if \<not> chart_ok s \<or> \<not> navigationLocked s then (Returned, s)
      else and_then
             (if originalNavigationOptions s then host env NavRestore s else (Returned, s))
             (\<lambda>s1. (Returned, s1\<lparr>navigationLocked := False\<rparr>)))"

subsection \<open>Tool selection\<close>

definition set_tool_active :: "nat \<Rightarrow> bool \<Rightarrow> dm \<Rightarrow> dm" where
  "set_tool_active r b s = s\<lparr>heap := (heap s)(r := (heap s r)\<lparr>t_isActive := b\<rparr>)\<rparr>"

definition setActiveTool :: "host_env \<Rightarrow> nat option \<Rightarrow> dm \<Rightarrow> outcome \<times> dm" where
  "setActiveTool env tool s =
     and_then
       (case currentTool s of
          None \<Rightarrow> (Returned, s)
        | Some cur \<Rightarrow> restoreNavigation env ((set_tool_active cur False s)\<lparr>listening := False\<rparr>))
       (\<lambda>s1.
          let s2 = s1\<lparr>currentTool := tool, isActive := (tool \<noteq> None)\<rparr> in
          case tool of
            Some r \<Rightarrow>
              (let s3 = set_tool_active r True s2;
                   c = cursor (heap s3 r)
               in (Returned,
                   publish (DrawingToolActivated (getName (heap s3 r)))
                     (s3\<lparr>container_cursor := (if c \<noteq> [] then c else ''crosshair''),
                         listening := True\<rparr>)))
          | None \<Rightarrow>
              (Returned,
               publish DrawingToolDeactivated
                 (s2\<lparr>container_cursor := ''default'', listening := False\<rparr>)))"

text \<open>\<open>toolName.toLowerCase()\<close>, on the ASCII letters.\<close>

definition toLowerCase :: "string \<Rightarrow> string" where
  "toLowerCase = map (\<lambda>c. let n = (of_char c :: nat)
                           in if 65 \<le> n \<and> n \<le> 90 then char_of (n + 32) else c)"

definition getToolInstance :: "host_env \<Rightarrow> string \<Rightarrow> dm \<Rightarrow> nat option \<times> dm" where
  "getToolInstance env toolName s =
     (if toolName = [] then (None, s)
      else case tools s toolName of
        Some r \<Rightarrow> (Some r, s)
      | None \<Rightarrow>
         (case tools s (toLowerCase toolName) of
            Some r \<Rightarrow> (Some r, s)
          | None \<Rightarrow>
              if (toolName = ''trendline'' \<or> toolName = ''TrendLine'') \<and> TrendLineTool_defined env
              then (Some (next_ref s),
                    s\<lparr>heap := (heap s)(next_ref s := new_tool TrendLine Map.empty),
                      tools := (tools s)(''trendline'' \<mapsto> next_ref s),
                      next_ref := Suc (next_ref s)\<rparr>)
              else (None, s)))"

subsection \<open>Pointer events\<close>

text \<open>
  \<open>screenToChart\<close>. The coordinate mapper catches whatever the host's conversion throws
  and returns \<open>undefined\<close>, also when the chart or the series is missing.
\<close>

definition screenToChart :: "host_env \<Rightarrow> dm \<Rightarrow> mouse_event \<Rightarrow> point" where
  "screenToChart env s ev =
     (let x = clientX ev - rect_left env; y = clientY ev - rect_top env in
      \<lparr>time = (if chart_ok s
                then (case coordinateToTime env x of Some t \<Rightarrow> t | None \<Rightarrow> Undefined)
                else Undefined),
       price = (if chart_ok s
                 then (case coordinateToPrice env y of Some p \<Rightarrow> p | None \<Rightarrow> Undefined)
                 else Undefined),
       screenX = Num (Fin x), screenY = Num (Fin y)\<rparr>)"

definition handleMouseDown :: "host_env \<Rightarrow> mouse_event \<Rightarrow> nat \<Rightarrow> dm \<Rightarrow> outcome \<times> dm" where
  "handleMouseDown env ev now s =
     (case currentTool s of
        None \<Rightarrow> (Returned, s)
      | Some r \<Rightarrow>
          if \<not> isActive s then (Returned, s)
          else let coords = screenToChart env s ev;
                   s1 = s\<lparr>isDrawing := True,
                          currentDrawing := Some (startDrawing (heap s r) coords (m_options s) now)\<rparr>
               in and_then (disableNavigation env s1)
                    (\<lambda>s2. (Returned, publish (DrawingStarted (getName (heap s2 r)) coords) s2)))"

definition handleMouseMove :: "host_env \<Rightarrow> mouse_event \<Rightarrow> dm \<Rightarrow> outcome \<times> dm" where
  "handleMouseMove env ev s =
     (case currentTool s of
        None \<Rightarrow> (Returned, s)
      | Some r \<Rightarrow>
          if \<not> isActive s then (Returned, s)
          else let coords = screenToChart env s ev;
                   s1 = (case (isDrawing s, currentDrawing s) of
                           (True, Some d) \<Rightarrow>
                             s\<lparr>currentDrawing := Some (updateDrawing (heap s r) d coords)\<rparr>
                         | _ \<Rightarrow> s\<lparr>heap := (heap s)(r := onHover (heap s r) coords)\<rparr>)
               in (Returned,
                   publish (DrawingMouseMove (getName (heap s1 r)) coords (isDrawing s1)) s1))"

text \<open>
  \<open>createTrendLinePrimitive\<close>: \<open>null\<close> for data without both points, and when the
  constructor throws (the \<open>catch\<close> returns \<open>null\<close>).
\<close>

definition createTrendLinePrimitive :: "host_env \<Rightarrow> drawing \<Rightarrow> dm \<Rightarrow> primitive option \<times> dm" where
  "createTrendLinePrimitive env d s =
     (if startPoint d = None \<or> endPoint d = None then (None, s)
      else if primitive_throws env then (None, s)
      else (Some \<lparr>prim_ref = next_ref s, drawingData = d,
                  prim_options = map_of [(''lineColor'', OStr ''#FF6B6B''), (''lineWidth'', ONum 2),
                                         (''lineStyle'', ONum 0)] ++ d_options d\<rparr>,
            s\<lparr>next_ref := Suc (next_ref s)\<rparr>))"

text \<open>
  \<open>handleMouseUp\<close>. \<open>newId\<close> is what \<open>generateDrawingId()\<close> returns, \<open>now\<close> what
  \<open>Date.now()\<close> returns. The tail (from \<open>this.isDrawing = false\<close> on) is reached only
  when the calls before it have returned.
\<close>

definition finish_gesture :: "host_env \<Rightarrow> string \<Rightarrow> point \<Rightarrow> bool \<Rightarrow> dm \<Rightarrow> outcome \<times> dm" where
  "finish_gesture env toolName coords hasPrimitive s =
     and_then (restoreNavigation env (s\<lparr>isDrawing := False, currentDrawing := None\<rparr>))
       (\<lambda>s1. (Returned, publish (DrawingCompleted toolName coords hasPrimitive) s1))"

definition handleMouseUp ::
  "host_env \<Rightarrow> mouse_event \<Rightarrow> nat \<Rightarrow> string \<Rightarrow> dm \<Rightarrow> outcome \<times> dm" where
  "handleMouseUp env ev now newId s =
     (case (isDrawing s, currentDrawing s) of
        (True, Some d) \<Rightarrow>
          (let coords = screenToChart env s ev in
           case currentTool s of
             None \<Rightarrow> (Threw, s)
           | Some r \<Rightarrow>
               (case finishDrawing (heap s r) d coords of
                  (Threw, d1) \<Rightarrow> (Threw, s\<lparr>currentDrawing := Some d1\<rparr>)
                | (Returned, d1) \<Rightarrow>
                    (let s1 = s\<lparr>currentDrawing := Some d1\<rparr>;
                         toolName = getName (heap s1 r)
                     in if toolName = ''TrendLine'' \<or> toolName = ''trendline'' then
                          (case createTrendLinePrimitive env d1 s1 of
                             (None, s2) \<Rightarrow> finish_gesture env toolName coords False s2
                           | (Some p, s2) \<Rightarrow>
                               and_then
                                 (and_then
                                    (host env (AttachPrimitive (prim_ref p))
                                       (s2\<lparr>drawings := AList.update newId
                                             \<lparr>e_id = newId, e_tool = Some toolName,
                                              e_data = Some d1, e_primitive = Some p,
                                              e_timestamp = Some now\<rparr> (drawings s2)\<rparr>))
                                    (\<lambda>s3. host env Repaint (s3\<lparr>attached := attached s3 @ [p]\<rparr>)))
                                 (finish_gesture env toolName coords True))
                        else finish_gesture env toolName coords False s1)))
      | _ \<Rightarrow> (Returned, s))"

text \<open>
  \<open>handleMouseLeave\<close> calls \<open>this.scheduleRedraw()\<close>. This class defines no
  \<open>scheduleRedraw\<close> (the canvas-based manager does), so the call throws a \<open>TypeError\<close>,
  after the gesture's fields have been reset.
\<close>

definition scheduleRedraw :: "dm \<Rightarrow> outcome \<times> dm" where
  "scheduleRedraw s = (Threw, s)"

definition handleMouseLeave :: "host_env \<Rightarrow> dm \<Rightarrow> outcome \<times> dm" where
  "handleMouseLeave env s =
     (case (isDrawing s, currentDrawing s) of
        (True, Some d) \<Rightarrow>
          and_then
            (and_then (scheduleRedraw (s\<lparr>isDrawing := False, currentDrawing := None\<rparr>))
               (restoreNavigation env))
            (\<lambda>s1. (Returned,
                    publish (DrawingCancelled
                      (case currentTool s1 of Some r \<Rightarrow> getName (heap s1 r)
                       | None \<Rightarrow> ''unknown'')) s1))
      | _ \<Rightarrow> (Returned, s))"

subsection \<open>The collection\<close>

text \<open>The \<open>forEach\<close> of \<open>clearAllDrawings\<close>: detach every primitive, stopping at a throw.\<close>

fun detach_all :: "host_env \<Rightarrow> (string \<times> entry) list \<Rightarrow> dm \<Rightarrow> outcome \<times> dm" where
  "detach_all env [] s = (Returned, s)"
| "detach_all env ((k, e) # es) s =
     (case e_primitive e of
        None \<Rightarrow> detach_all env es s
      | Some p \<Rightarrow>
          and_then (host env (DetachPrimitive (prim_ref p)) s)
            (\<lambda>s1. detach_all env es
                     (s1\<lparr>attached := filter (\<lambda>q. prim_ref q \<noteq> prim_ref p) (attached s1)\<rparr>)))"

definition clearAllDrawings :: "host_env \<Rightarrow> dm \<Rightarrow> outcome \<times> dm" where
  "clearAllDrawings env s =
     and_then
       (and_then (detach_all env (drawings s) s)
          (\<lambda>s1. host env Repaint (s1\<lparr>drawings := [], isDrawing := False, currentDrawing := None\<rparr>)))
       (\<lambda>s2. (Returned, publish AllDrawingsCleared s2))"

definition removeDrawing :: "host_env \<Rightarrow> string \<Rightarrow> dm \<Rightarrow> outcome \<times> dm" where
  "removeDrawing env drawingId s =
     (case map_of (drawings s) drawingId of
        None \<Rightarrow> (Returned, s)
      | Some e \<Rightarrow>
          and_then
            (and_then
               (case e_primitive e of
                  None \<Rightarrow> (Returned, s)
                | Some p \<Rightarrow>
                    and_then (host env (DetachPrimitive (prim_ref p)) s)
                      (\<lambda>s1. (Returned,
                         s1\<lparr>attached := filter (\<lambda>q. prim_ref q \<noteq> prim_ref p) (attached s1)\<rparr>)))
               (\<lambda>s2. host env Repaint (s2\<lparr>drawings := AList.delete drawingId (drawings s2)\<rparr>)))
            (\<lambda>s3. (Returned, publish (DrawingRemoved drawingId) s3)))"

text \<open>\<open>exportDrawings\<close>: of every entry, \<open>tool\<close>, \<open>data\<close> and \<open>timestamp\<close>, as they are stored.\<close>

record exported =
  x_tool :: "string option"
  x_data :: "drawing option"
  x_timestamp :: "nat option"


text \<open>
  \<open>importDrawings\<close>. The argument is any value: an array of records or something else.
  A record is an object with any of the properties of an entry (\<open>{id: drawingId,
  ...drawingData}\<close>: a record's own \<open>id\<close> overrides the generated one in the stored
  object, not in the key). \<open>gen k\<close> is what the \<open>k\<close>-th call of \<open>generateDrawingId()\<close>
  returns.
\<close>

record import_record =
  r_id :: "string option"
  r_tool :: "string option"
  r_data :: "drawing option"
  r_timestamp :: "nat option"

datatype import_arg = NotAnArray | Array "import_record list"

definition import_entry :: "string \<Rightarrow> import_record \<Rightarrow> entry" where
  "import_entry drawingId r =
     \<lparr>e_id = (case r_id r of Some i \<Rightarrow> i | None \<Rightarrow> drawingId),
      e_tool = r_tool r, e_data = r_data r, e_primitive = None,
      e_timestamp = r_timestamp r\<rparr>"

fun import_each ::
  "(nat \<Rightarrow> string) \<Rightarrow> nat \<Rightarrow> import_record list \<Rightarrow> (string \<times> entry) list \<Rightarrow> (string \<times> entry) list" where
  "import_each gen k [] ds = ds"
| "import_each gen k (r # rest) ds =
     import_each gen (Suc k) rest (AList.update (gen k) (import_entry (gen k) r) ds)"

definition importDrawings :: "host_env \<Rightarrow> import_arg \<Rightarrow> (nat \<Rightarrow> string) \<Rightarrow> dm \<Rightarrow> outcome \<times> dm" where
  "importDrawings env drawingsData gen s =
     (case drawingsData of
        NotAnArray \<Rightarrow> (Returned, s)
      | Array records \<Rightarrow>
          and_then (host env Repaint (s\<lparr>drawings := import_each gen 0 records (drawings s)\<rparr>))
            (\<lambda>s1. (Returned, publish (DrawingsImported (length records)) s1)))"

definition destroy :: "host_env \<Rightarrow> dm \<Rightarrow> outcome \<times> dm" where
  "destroy env s =
     and_then (and_then (restoreNavigation env s) (clearAllDrawings env))
       (\<lambda>s1. (Returned,
               s1\<lparr>listening := False, drawings := [], currentTool := None,
                  currentDrawing := None, isActive := False,
                  originalNavigationOptions := False, navigationLocked := False\<rparr>))"

subsection \<open>Events and runs\<close>

text \<open>
  The inputs of the manager: the pointer events of the chart container (delivered only
  while the listeners are registered), tool selection, and destruction. An exception
  ends the handler that raised it; the state it left is what the next event meets.
\<close>

datatype dm_event =
    MouseDown mouse_event nat
  | MouseMove mouse_event
  | MouseUp mouse_event nat string
  | MouseLeave
  | SetActiveTool "nat option"
  | Destroy

fun step :: "host_env \<Rightarrow> dm_event \<Rightarrow> dm \<Rightarrow> outcome \<times> dm" where
  "step env (MouseDown ev now) s = (if listening s then handleMouseDown env ev now s else (Returned, s))"
| "step env (MouseMove ev) s = (if listening s then handleMouseMove env ev s else (Returned, s))"
| "step env (MouseUp ev now newId) s =
     (if listening s then handleMouseUp env ev now newId s else (Returned, s))"
| "step env MouseLeave s = (if listening s then handleMouseLeave env s else (Returned, s))"
| "step env (SetActiveTool t) s = setActiveTool env t s"
| "step env Destroy s = destroy env s"

fun run_events :: "host_env \<Rightarrow> dm_event list \<Rightarrow> dm \<Rightarrow> dm" where
  "run_events env [] s = s"
| "run_events env (e # es) s = run_events env es (snd (step env e s))"

subsection \<open>Gestures\<close>

text \<open>
  The states of the manager's machine. \<open>armed\<close>: a tool is selected, the pointer
  listeners are registered, no navigation lock is held. \<open>in_gesture\<close>: between
  pointer-down and the end of the gesture, with the drawing the tool created still
  complete (a two-point drawing has both its points).
\<close>

definition armed :: "dm \<Rightarrow> nat \<Rightarrow> bool" where
  "armed s r \<longleftrightarrow>
     chart_ok s \<and> listening s \<and> isActive s \<and> currentTool s = Some r
     \<and> \<not> navigationLocked s \<and> originalNavigationOptions s"

definition in_gesture :: "dm \<Rightarrow> nat \<Rightarrow> bool" where
  "in_gesture s r \<longleftrightarrow>
     chart_ok s \<and> listening s \<and> isActive s \<and> currentTool s = Some r \<and> isDrawing s
     \<and> navigationLocked s \<and> originalNavigationOptions s
     \<and> (\<exists>d. currentDrawing s = Some d
            \<and> (kind (heap s r) = HorizontalLine \<or> (startPoint d \<noteq> None \<and> endPoint d \<noteq> None)))"

definition host_ok :: "host_env \<Rightarrow> bool" where
  "host_ok env \<longleftrightarrow> (\<forall>c. \<not> throws env c)"

text \<open>
  The two host calls of the navigation lock, and the events that end a gesture by commit,
  by a tool change and by destruction (pointer-leave is treated apart).
\<close>

fun is_nav :: "host_call \<Rightarrow> bool" where
  "is_nav NavOff = True"
| "is_nav NavRestore = True"
| "is_nav _ = False"

fun is_exit :: "dm_event \<Rightarrow> bool" where
  "is_exit (MouseUp ev now newId) = True"
| "is_exit (SetActiveTool t) = True"
| "is_exit Destroy = True"
| "is_exit _ = False"

section \<open>DrawingManager, canvas-based (src/js/drawings/DrawingManager.js): the collection\<close>

text \<open>
  The older manager paints on a canvas of its own. Its collection methods differ from the
  primitive-based ones in that they schedule a redraw (an animation frame, which cannot
  throw) where the other detaches primitives and repaints the host chart. Only the
  fields these methods touch are modelled.
\<close>

record cm =
  c_drawings :: "(string \<times> entry) list"
  redrawPending :: bool
  c_emitted :: "emitted list"

definition c_scheduleRedraw :: "cm \<Rightarrow> cm" where
  "c_scheduleRedraw s = s\<lparr>redrawPending := True\<rparr>"

definition c_removeDrawing :: "string \<Rightarrow> cm \<Rightarrow> cm" where
  "c_removeDrawing drawingId s =
     (if map_of (c_drawings s) drawingId \<noteq> None
      then (c_scheduleRedraw (s\<lparr>c_drawings := AList.delete drawingId (c_drawings s)\<rparr>))
             \<lparr>c_emitted := c_emitted s @ [DrawingRemoved drawingId]\<rparr>
      else s)"

definition c_exportDrawings :: "cm \<Rightarrow> exported list" where
  "c_exportDrawings s =
     map (\<lambda>(k, e). \<lparr>x_tool = e_tool e, x_data = e_data e, x_timestamp = e_timestamp e\<rparr>)
       (c_drawings s)"

definition c_importDrawings :: "import_arg \<Rightarrow> (nat \<Rightarrow> string) \<Rightarrow> cm \<Rightarrow> cm" where
  "c_importDrawings drawingsData gen s =
     (case drawingsData of
        NotAnArray \<Rightarrow> s
      | Array records \<Rightarrow>
          (c_scheduleRedraw (s\<lparr>c_drawings := import_each gen 0 records (c_drawings s)\<rparr>))
            \<lparr>c_emitted := c_emitted s @ [DrawingsImported (length records)]\<rparr>)"

section \<open>Toolbar (src/js/ui/Toolbar.js) and the manager's bus subscriptions\<close>

text \<open>
  The toolbar keeps the id of the tool it shows as selected and marks one button active.
  It has buttons for three ids.
\<close>

record toolbar =
  tb_currentTool :: "string option"
  activeButton :: "string option"

definition toolbar_tool_ids :: "string list" where
  "toolbar_tool_ids = [''trendline'', ''horizontal'', ''fibonacci'']"

definition updateActiveTool :: "string option \<Rightarrow> toolbar \<Rightarrow> toolbar" where
  "updateActiveTool toolId tb =
     tb\<lparr>activeButton :=
          (case toolId of
             None \<Rightarrow> None
           | Some t \<Rightarrow> if t \<noteq> [] \<and> t \<in> set toolbar_tool_ids then Some t else None)\<rparr>"

definition deselectAllTools :: "toolbar \<Rightarrow> toolbar" where
  "deselectAllTools tb = updateActiveTool None tb"

text \<open>
  \<open>setupEventBusListeners\<close>: what the manager does on \<open>drawing-tool-selected\<close> (the
  payload is a tool name or a tool object) and on \<open>drawing-tool-deselected\<close>.
\<close>

datatype tool_payload = ToolName string | ToolObject nat

definition on_tool_selected :: "host_env \<Rightarrow> tool_payload \<Rightarrow> dm \<Rightarrow> outcome \<times> dm" where
  "on_tool_selected env toolNameOrObject s =
     (case toolNameOrObject of
        ToolName n \<Rightarrow> (case getToolInstance env n s of (tool, s1) \<Rightarrow> setActiveTool env tool s1)
      | ToolObject r \<Rightarrow> setActiveTool env (Some r) s)"

definition on_tool_deselected :: "host_env \<Rightarrow> dm \<Rightarrow> outcome \<times> dm" where
  "on_tool_deselected env s = setActiveTool env None s"

text \<open>
  \<open>Toolbar.selectTool\<close>, with the bus delivering each event synchronously to the
  manager's subscription and to the toolbar's own (\<open>updateActiveTool\<close> on
  \<open>drawing-tool-selected\<close>). The bus catches what a listener throws, so the toolbar
  goes on with the state the listener left.
\<close>

definition selectTool :: "host_env \<Rightarrow> string \<Rightarrow> toolbar \<times> dm \<Rightarrow> toolbar \<times> dm" where
  "selectTool env toolId = (\<lambda>(tb, s).
     if tb_currentTool tb = Some toolId then
       (let tb1 = deselectAllTools tb;
            s1 = snd (on_tool_deselected env s)
        in (tb1\<lparr>tb_currentTool := None\<rparr>, s1))
     else
       (let tb1 = updateActiveTool (Some toolId) (tb\<lparr>tb_currentTool := Some toolId\<rparr>);
            s1 = snd (on_tool_selected env (ToolName toolId) s);
            tb2 = updateActiveTool (Some toolId) tb1
        in (tb2, s1)))"

section \<open>Concrete inputs for the examples\<close>

text \<open>
  A host that never throws, with the container at the origin, time equal to the x pixel
  and price equal to 1000 minus the y pixel; and one that throws on the repaint only.
\<close>

definition demo_env :: host_env where
  "demo_env = \<lparr>throws = (\<lambda>c. False), primitive_throws = False, rect_left = 0, rect_top = 0,
               coordinateToTime = (\<lambda>x. Some (Num (Fin x))),
               coordinateToPrice = (\<lambda>y. Some (Num (Fin (1000 - y)))),
               TrendLineTool_defined = True\<rparr>"

definition repaint_fails_env :: host_env where
  "repaint_fails_env = demo_env\<lparr>throws := (\<lambda>c. c = Repaint)\<rparr>"

text \<open>A fresh manager, and the same with the registered TrendLine tool selected.\<close>

definition demo_idle :: dm where
  "demo_idle = new_DrawingManager demo_env True Map.empty"

definition demo_armed :: dm where
  "demo_armed = snd (setActiveTool demo_env (Some 0) demo_idle)"

text \<open>Pointer-down at (10, 20), pointer-up at (110, 20): a horizontal stroke of 100 pixels.\<close>

definition demo_gesture :: "dm_event list" where
  "demo_gesture =
     [MouseDown \<lparr>clientX = 10, clientY = 20\<rparr> 1700000000000,
      MouseMove \<lparr>clientX = 60, clientY = 40\<rparr>,
      MouseUp \<lparr>clientX = 110, clientY = 20\<rparr> 1700000000500 ''drawing_1700000000500_k3x9q2'']"

text \<open>
  An import batch of five records, as \<open>exportDrawings\<close> writes them; the third has no
  end anchor. The ids \<open>generateDrawingId\<close> returns are distinct.
\<close>

definition demo_point :: "real \<Rightarrow> real \<Rightarrow> point" where
  "demo_point t p = \<lparr>time = Num (Fin t), price = Num (Fin p), screenX = Undefined,
                      screenY = Undefined\<rparr>"

definition demo_record :: "real \<Rightarrow> import_record" where
  "demo_record t =
     \<lparr>r_id = None, r_tool = Some ''TrendLine'',
      r_data = Some ((blank_drawing ''TrendLine'' trendline_defaults 1700000000000)
                 \<lparr>startPoint := Some (demo_point t 100), endPoint := Some (demo_point (t + 1) 110)\<rparr>),
      r_timestamp = Some 1700000000000\<rparr>"

definition demo_malformed :: import_record where
  "demo_malformed =
     \<lparr>r_id = None, r_tool = Some ''TrendLine'',
      r_data = Some ((blank_drawing ''TrendLine'' trendline_defaults 1700000000000)
                 \<lparr>startPoint := Some (demo_point 3 100)\<rparr>),
      r_timestamp = Some 1700000000000\<rparr>"

definition demo_batch :: "import_record list" where
  "demo_batch = [demo_record 1, demo_record 2, demo_malformed, demo_record 4, demo_record 5]"

definition demo_gen :: "nat \<Rightarrow> string" where
  "demo_gen k = ''drawing_'' @ replicate (Suc k) (CHR ''7'')"

definition demo_canvas :: cm where
  "demo_canvas = \<lparr>c_drawings = [], redrawPending = False, c_emitted = []\<rparr>"

text \<open>A manager holding one committed drawing with its primitive attached, and the canvas analogue.\<close>

definition demo_primitive :: primitive where
  "demo_primitive =
     \<lparr>prim_ref = 1,
      drawingData = (blank_drawing ''TrendLine'' trendline_defaults 1700000000000)
         \<lparr>startPoint := Some (demo_point 1 100), endPoint := Some (demo_point 2 110)\<rparr>,
      prim_options = trendline_defaults\<rparr>"

definition demo_entry :: entry where
  "demo_entry =
     \<lparr>e_id = ''drawing_1'', e_tool = Some ''TrendLine'',
      e_data = Some (drawingData demo_primitive), e_primitive = Some demo_primitive,
      e_timestamp = Some 1700000000000\<rparr>"

definition demo_holding :: dm where
  "demo_holding = demo_idle\<lparr>drawings := [(''drawing_1'', demo_entry)],
                             attached := [demo_primitive], next_ref := 2\<rparr>"

definition demo_canvas_holding :: cm where
  "demo_canvas_holding =
     \<lparr>c_drawings = [(''drawing_1'', demo_entry\<lparr>e_primitive := None\<rparr>)],
      redrawPending = False, c_emitted = []\<rparr>"

text \<open>
  A trend line drawn by the TrendLine tool from price 0 to price 5, 100 pixels long, and
  the same from price 100 to price 110.
\<close>

definition zero_start_line :: drawing where
  "zero_start_line =
     snd (tl_finalizeDrawingData
            (tl_createDrawing (new_tool TrendLine Map.empty)
               \<lparr>time = Num (Fin 1), price = Num (Fin 0), screenX = Num (Fin 0), screenY = Num (Fin 0)\<rparr>
               Map.empty 1700000000000)
            \<lparr>time = Num (Fin 2), price = Num (Fin 5), screenX = Num (Fin 100), screenY = Num (Fin 0)\<rparr>)"

definition rising_line :: drawing where
  "rising_line =
     snd (tl_finalizeDrawingData
            (tl_createDrawing (new_tool TrendLine Map.empty)
               \<lparr>time = Num (Fin 1), price = Num (Fin 100), screenX = Num (Fin 0), screenY = Num (Fin 0)\<rparr>
               Map.empty 1700000000000)
            \<lparr>time = Num (Fin 2), price = Num (Fin 110), screenX = Num (Fin 100), screenY = Num (Fin 0)\<rparr>)"

text \<open>
  A Fibonacci retracement drawn from price 100 to price 200 with the tool's own options,
  and a coordinate mapper that puts time 1 at x = 0, time 2 at x = 100 and every price at
  y = 0 (the screen positions of \<open>rising_line\<close>).
\<close>

definition retracement_100_200 :: drawing where
  "retracement_100_200 =
     snd (fib_finalizeDrawingData (new_tool FibRetracement Map.empty)
            (fib_createDrawing (new_tool FibRetracement Map.empty)
               \<lparr>time = Num (Fin 1), price = Num (Fin 100), screenX = Num (Fin 0), screenY = Num (Fin 0)\<rparr>
               Map.empty 1700000000000)
            \<lparr>time = Num (Fin 2), price = Num (Fin 200), screenX = Num (Fin 100), screenY = Num (Fin 0)\<rparr>)"

definition time_axis_mapper :: mapper where
  "time_axis_mapper t p = (Num (js_mul (js_sub (to_number t) (Fin 1)) (Fin 100)), Num (Fin 0))"

section \<open>Rounding to a double\<close>

lemma round_half_even_int [simp]: "round_half_even (of_int k) = k"
  by (simp add: round_half_even_def)

lemma round_half_even_bounds:
  "of_int (round_half_even r) - 1 / 2 \<le> r" "r \<le> of_int (round_half_even r) + 1 / 2"
  unfolding round_half_even_def Let_def by (auto split: if_splits) linarith+

lemma round_half_even_eqI:
  assumes "of_int n - 1 / 2 < r" and "r < of_int n + 1 / 2"
  shows "round_half_even r = n"
proof -
  have "\<lfloor>r\<rfloor> = n \<or> \<lfloor>r\<rfloor> = n - 1" using assms by linarith
  then show ?thesis
    using assms unfolding round_half_even_def Let_def
    by (auto split: if_splits) 
qed

lemma floor_log2_eqI:
  assumes "2 powr of_int k \<le> x" and "x < 2 powr of_int (k + 1)"
  shows "\<lfloor>log 2 x\<rfloor> = k"
proof -
  have x: "0 < x" using assms(1) by (smt (verit) powr_gt_zero)
  have "of_int k \<le> log 2 x" using assms(1) x by (simp add: le_log_iff)
  moreover have "log 2 x < of_int (k + 1)" using assms(2) x by (simp add: log_less_iff)
  ultimately show ?thesis by linarith
qed

text \<open>A value below \<open>2^53\<close> in magnitude, scaled by \<open>2^q\<close> into the range of a 53-bit mantissa.\<close>

lemma to_double_scaled:
  assumes q: "q \<le> 1074"
    and lo: "2 ^ 52 \<le> \<bar>x\<bar> * 2 ^ q" and hi: "\<bar>x\<bar> * 2 ^ q < 2 ^ 53"
    and n: "round_half_even (x * 2 ^ q) = n"
  shows "to_double x = Fin (of_int n / 2 ^ q)"
proof -
  have x0: "x \<noteq> 0" using lo by auto
  have p: "2 powr of_int (52 - int q) = 2 ^ 52 / (2 ^ q :: real)"
    by (simp add: powr_diff powr_realpow)
  have p1: "2 powr of_int (52 - int q + 1) = 2 ^ 53 / (2 ^ q :: real)"
    by (simp add: powr_diff powr_add powr_realpow)
  have "2 powr of_int (52 - int q) \<le> \<bar>x\<bar>"
    unfolding p using lo by (simp add: field_simps)
  moreover have "\<bar>x\<bar> < 2 powr of_int (52 - int q + 1)"
    unfolding p1 using hi by (simp add: field_simps)
  ultimately have e: "\<lfloor>log 2 \<bar>x\<bar>\<rfloor> = 52 - int q" by (rule floor_log2_eqI)
  have m: "max (52 - int q) (- 1022) = 52 - int q" using q by simp
  have ee: "max \<lfloor>log 2 \<bar>x\<bar>\<rfloor> (- 1022) - 52 = - int q" using e m by simp
  have u: "2 powr of_int (- int q) = 1 / (2 ^ q :: real)"
    by (simp add: powr_minus powr_realpow field_simps)
  have r: "x / (1 / 2 ^ q) = x * 2 ^ q" by simp
  have nb: "\<bar>real_of_int n\<bar> < 2 ^ 53 + 1"
  proof -
    have "\<bar>real_of_int n\<bar> \<le> \<bar>x * 2 ^ q\<bar> + 1 / 2"
      using round_half_even_bounds [of "x * 2 ^ q"] unfolding n by linarith
    also have "\<dots> < 2 ^ 53 + 1" using hi by (simp add: abs_mult)
    finally show ?thesis .
  qed
  have "\<bar>real_of_int n / 2 ^ q\<bar> = \<bar>real_of_int n\<bar> / 2 ^ q" by simp
  also have "\<dots> \<le> \<bar>real_of_int n\<bar>"
  proof -
    have "(1 :: real) \<le> 2 ^ q" by simp
    then show ?thesis
      by (simp add: divide_le_eq mult_le_cancel_left1 del: one_le_power)
  qed
  finally have "\<bar>real_of_int n / 2 ^ q\<bar> < 2 ^ 53 + 1" using nb by linarith
  moreover have "(2 :: real) ^ 53 + 1 < 2 ^ 1024" by simp
  ultimately have ov: "\<not> 2 ^ 1024 \<le> \<bar>real_of_int n / 2 ^ q\<bar>" by linarith
  show ?thesis
    unfolding to_double_def Let_def ee u r n using x0 ov by simp
qed


lemma to_double_exact:
  assumes "q \<le> 1074" and "2 ^ 52 \<le> \<bar>x\<bar> * 2 ^ q" and "\<bar>x\<bar> * 2 ^ q < 2 ^ 53"
    and "x * 2 ^ q = of_int m"
  shows "to_double x = Fin x"
proof -
  have "round_half_even (x * 2 ^ q) = m" unfolding assms(4) by simp
  from to_double_scaled [OF assms(1-3) this] have "to_double x = Fin (of_int m / 2 ^ q)" .
  also have "of_int m / 2 ^ q = x" using assms(4) [symmetric] by simp
  finally show ?thesis .
qed

lemma mantissa_scale:
  assumes "1 \<le> a" and "a < 2 ^ 53"
  shows "\<exists>q\<le>52. 2 ^ 52 \<le> a * 2 ^ q \<and> a * 2 ^ q < (2 :: real) ^ 53"
proof -
  define e where "e = \<lfloor>log 2 a\<rfloor>"
  have a0: "0 < a" using assms by simp
  have "0 \<le> log 2 a" using assms by simp
  then have e0: "0 \<le> e" unfolding e_def by simp
  have "log 2 a < 53" using assms a0 by (simp add: log_less_iff)
  then have e52: "e \<le> 52" unfolding e_def by linarith
  have lo: "2 powr of_int e \<le> a"
  proof -
    have "of_int e \<le> log 2 a" unfolding e_def by simp
    then show ?thesis using a0 by (simp add: le_log_iff)
  qed
  have hi: "a < 2 powr of_int (e + 1)"
  proof -
    have "log 2 a < of_int (e + 1)" unfolding e_def by linarith
    then show ?thesis using a0 by (simp add: log_less_iff)
  qed
  define q where "q = nat (52 - e)"
  have q52: "q \<le> 52" unfolding q_def using e0 by simp
  have eq: "e = 52 - int q" unfolding q_def using e52 by simp
  have p: "2 powr of_int (52 - int q) = 2 ^ 52 / (2 ^ q :: real)"
    by (simp add: powr_diff powr_realpow)
  have p1: "2 powr of_int (52 - int q + 1) = 2 ^ 53 / (2 ^ q :: real)"
    by (simp add: powr_diff powr_add powr_realpow)
  have "2 ^ 52 \<le> a * 2 ^ q" using lo unfolding eq p by (simp add: field_simps)
  moreover have "a * 2 ^ q < 2 ^ 53" using hi unfolding eq p1 by (simp add: field_simps)
  ultimately show ?thesis using q52 by blast
qed

text \<open>Every integer below \<open>2^53\<close> in magnitude is a double.\<close>

lemma to_double_of_int:
  assumes "\<bar>k\<bar> < 2 ^ 53"
  shows "to_double (of_int k) = Fin (of_int k)"
proof (cases "k = 0")
  case True
  then show ?thesis by (simp add: to_double_def)
next
  case False
  then have "1 \<le> \<bar>real_of_int k\<bar>" by linarith
  moreover have "\<bar>real_of_int k\<bar> < 2 ^ 53"
    using assms by (metis of_int_abs of_int_less_numeral_power_cancel_iff)
  ultimately obtain q where q: "q \<le> 52" "2 ^ 52 \<le> \<bar>real_of_int k\<bar> * 2 ^ q"
    "\<bar>real_of_int k\<bar> * 2 ^ q < 2 ^ 53"
    using mantissa_scale by blast
  have "real_of_int k * 2 ^ q = of_int (k * 2 ^ q)" by simp
  with q show ?thesis
    by (intro to_double_exact [where q = q and m = "k * 2 ^ q"]) simp_all
qed

lemma to_double_numeral [simp]:
  "numeral w < (2 :: int) ^ 53 \<Longrightarrow> to_double (numeral w) = Fin (numeral w)"
  "numeral w < (2 :: int) ^ 53 \<Longrightarrow> to_double (- numeral w) = Fin (- numeral w)"
  "to_double 0 = Fin 0" "to_double 1 = Fin 1" "to_double (- 1) = Fin (- 1)"
  using to_double_of_int [of "numeral w"] to_double_of_int [of "- numeral w"]
    to_double_of_int [of 1] to_double_of_int [of "- 1"]
  by (simp_all add: to_double_def)


text \<open>The rule by which a rounding is computed: the scale \<open>q\<close> and the mantissa \<open>n\<close> are given.\<close>

lemma to_double_near:
  assumes "q \<le> 1074" and "2 ^ 52 \<le> \<bar>x\<bar> * 2 ^ q" and "\<bar>x\<bar> * 2 ^ q < 2 ^ 53"
    and "of_int n - 1 / 2 < x * 2 ^ q" and "x * 2 ^ q < of_int n + 1 / 2"
    and "y = of_int n / 2 ^ q"
  shows "to_double x = Fin y"
  unfolding assms(6)
  by (rule to_double_scaled [OF assms(1-3) round_half_even_eqI [OF assms(4,5)]])


text \<open>The same with the rounding of the scaled value left to compute, for a tie.\<close>

lemma to_double_round:
  assumes "q \<le> 1074" and "2 ^ 52 \<le> \<bar>x\<bar> * 2 ^ q" and "\<bar>x\<bar> * 2 ^ q < 2 ^ 53"
    and "round_half_even (x * 2 ^ q) = n" and "y = of_int n / 2 ^ q"
  shows "to_double x = Fin y"
  unfolding assms(5) by (rule to_double_scaled [OF assms(1-4)])

text \<open>The operations on finite operands.\<close>

lemma js_add_Fin: "js_add (Fin a) (Fin b) = to_double (a + b)"
  by simp

lemma js_sub_Fin: "js_sub (Fin a) (Fin b) = to_double (a - b)"
  by (simp add: js_sub_def)

lemma js_mul_Fin: "js_mul (Fin a) (Fin b) = to_double (a * b)"
  by simp

lemma js_div_Fin: "b \<noteq> 0 \<Longrightarrow> js_div (Fin a) (Fin b) = to_double (a / b)"
  by simp


lemma double_of_eq: "to_double x = Fin y \<Longrightarrow> double_of x = y"
  by (simp add: double_of_def)

lemma round_half_even_sign:
  "0 \<le> r \<Longrightarrow> 0 \<le> round_half_even r" "r \<le> 0 \<Longrightarrow> round_half_even r \<le> 0"
proof -
  assume "0 \<le> r"
  then have "0 \<le> \<lfloor>r\<rfloor>" by simp
  then show "0 \<le> round_half_even r"
    unfolding round_half_even_def Let_def by (auto split: if_splits)
next
  assume r: "r \<le> 0"
  show "round_half_even r \<le> 0"
  proof (cases "r = 0")
    case True
    then show ?thesis by (simp add: round_half_even_def)
  next
    case False
    with r have "r < 0" by simp
    then have "\<lfloor>r\<rfloor> \<le> - 1" by linarith
    then show ?thesis
      unfolding round_half_even_def Let_def by (auto split: if_splits)
  qed
qed

text \<open>
  The error of a rounding: half a unit in the last place, which is at most the value
  times \<open>2^-53\<close> for a normal number and at most \<open>2^-1075\<close> for a subnormal one. The
  rounded value has the sign of the exact one.
\<close>

lemma to_double_error:
  assumes "\<bar>x\<bar> \<le> 2 ^ 1000"
  shows "\<exists>y. to_double x = Fin y \<and> \<bar>y - x\<bar> \<le> \<bar>x\<bar> / 2 ^ 53 + 1 / 2 ^ 1075
           \<and> (0 \<le> x \<longrightarrow> 0 \<le> y) \<and> (x \<le> 0 \<longrightarrow> y \<le> 0)"
proof (cases "x = 0")
  case True
  then show ?thesis by (simp add: to_double_def)
next
  case False
  define e where "e = max \<lfloor>log 2 \<bar>x\<bar>\<rfloor> (- 1022)"
  define u :: real where "u = 2 powr of_int (e - 52)"
  define n where "n = round_half_even (x / u)"
  define y where "y = of_int n * u"
  have u0: "0 < u" unfolding u_def by simp
  have "\<bar>of_int n - x / u\<bar> \<le> 1 / 2"
    using round_half_even_bounds [of "x / u"] unfolding n_def by linarith
  then have "\<bar>of_int n - x / u\<bar> * u \<le> 1 / 2 * u"
    using u0 by (simp only: mult_le_cancel_right_pos)
  moreover have "\<bar>of_int n - x / u\<bar> * u = \<bar>y - x\<bar>"
  proof -
    have "\<bar>of_int n - x / u\<bar> * u = \<bar>(of_int n - x / u) * u\<bar>"
      using u0 by (simp add: abs_mult)
    also have "(of_int n - x / u) * u = y - x"
      using u0 by (simp add: y_def field_simps)
    finally show ?thesis .
  qed
  ultimately have err: "\<bar>y - x\<bar> \<le> u / 2" by simp
  have ub: "u / 2 \<le> \<bar>x\<bar> / 2 ^ 53 + 1 / 2 ^ 1075"
  proof (cases "- 1022 \<le> \<lfloor>log 2 \<bar>x\<bar>\<rfloor>")
    case True
    then have e: "e = \<lfloor>log 2 \<bar>x\<bar>\<rfloor>" unfolding e_def by simp
    have "of_int e \<le> log 2 \<bar>x\<bar>" unfolding e by simp
    then have "2 powr of_int e \<le> \<bar>x\<bar>" using False by (simp add: le_log_iff)
    moreover have "u = 2 powr of_int e / 2 ^ 52"
      unfolding u_def by (simp add: powr_diff powr_realpow)
    ultimately have "u \<le> \<bar>x\<bar> / 2 ^ 52" by (simp add: field_simps)
    then show ?thesis by simp
  next
    case False
    then have e: "e = - 1022" unfolding e_def by simp
    have "u = 1 / 2 ^ 1074"
      unfolding u_def e by (simp add: powr_minus powr_realpow field_simps)
    then show ?thesis by simp
  qed
  have yb: "\<bar>y - x\<bar> \<le> \<bar>x\<bar> / 2 ^ 53 + 1 / 2 ^ 1075" using err ub by linarith
  have "\<bar>y\<bar> \<le> \<bar>x\<bar> + \<bar>y - x\<bar>" by linarith
  also have "\<dots> \<le> 2 ^ 1000 + (2 ^ 1000 / 2 ^ 53 + 1 / 2 ^ 1075)"
    using yb assms by (simp add: field_simps) 
  also have "\<dots> < 2 ^ 1024" by simp
  finally have ov: "\<not> 2 ^ 1024 \<le> \<bar>y\<bar>" by simp
  have td: "to_double x = Fin y"
    using \<open>x \<noteq> 0\<close> ov unfolding to_double_def Let_def y_def n_def u_def e_def by simp
  have s1: "0 \<le> x \<longrightarrow> 0 \<le> y"
  proof
    assume "0 \<le> x"
    then have "0 \<le> x / u" using u0 by simp
    then have "0 \<le> n" unfolding n_def by (rule round_half_even_sign)
    then show "0 \<le> y" unfolding y_def using u0 by simp
  qed
  have s2: "x \<le> 0 \<longrightarrow> y \<le> 0"
  proof
    assume "x \<le> 0"
    then have "x / u \<le> 0" using u0 by (simp add: divide_le_0_iff)
    then have "n \<le> 0" unfolding n_def by (rule round_half_even_sign)
    then show "y \<le> 0" unfolding y_def using u0 by (simp add: mult_le_0_iff)
  qed
  from td yb s1 s2 show ?thesis by blast
qed

text \<open>The same for a value bounded by \<open>M\<close>: the error is at most \<open>M * 2^-52\<close>.\<close>

lemma to_double_error_abs:
  assumes "\<bar>x\<bar> \<le> M" and "1 \<le> M" and "M \<le> 2 ^ 100"
  shows "\<exists>y. to_double x = Fin y \<and> \<bar>y - x\<bar> \<le> M / 2 ^ 52
           \<and> (0 \<le> x \<longrightarrow> 0 \<le> y) \<and> (x \<le> 0 \<longrightarrow> y \<le> 0)"
proof -
  have "(2 :: real) ^ 100 \<le> 2 ^ 1000" by simp
  with assms have "\<bar>x\<bar> \<le> 2 ^ 1000" by linarith
  from to_double_error [OF this] obtain y where
    y: "to_double x = Fin y" "\<bar>y - x\<bar> \<le> \<bar>x\<bar> / 2 ^ 53 + 1 / 2 ^ 1075"
    "0 \<le> x \<longrightarrow> 0 \<le> y" "x \<le> 0 \<longrightarrow> y \<le> 0"
    by blast
  have "\<bar>x\<bar> / 2 ^ 53 \<le> M / 2 ^ 53" using assms(1) by (simp add: divide_right_mono)
  moreover have "(1 :: real) / 2 ^ 1075 \<le> 1 / 2 ^ 53" by simp
  moreover have "(1 :: real) / 2 ^ 53 \<le> M / 2 ^ 53" using assms(2) by (simp add: divide_right_mono)
  moreover have "M / 2 ^ 53 + M / 2 ^ 53 = M / 2 ^ 52" by simp
  ultimately have "\<bar>y - x\<bar> \<le> M / 2 ^ 52" using y(2) by linarith
  with y show ?thesis by blast
qed

section \<open>Properties of the EventBus\<close>

lemma fold_logged:
  "fold (executeListener (logged run) n d) ls (c, (ev, (w, tr))) = (c', (ev', (w', tr'))) \<Longrightarrow>
     map fst tr' = map fst tr @ map callback ls \<and> c' + completed tr = c + completed tr'"
proof (induction ls arbitrary: c ev w tr)
  case Nil
  then show ?case by simp
next
  case (Cons l ls)
  obtain out ev1 w1 where r: "run (callback l) (lcontext l) d n (ev, w) = (out, (ev1, w1))"
    by (metis prod.exhaust)
  show ?case
  proof (cases out)
    case Returned
    let ?ev2 = "if once l then snd (off n (callback l) ev1) else ev1"
    have step: "executeListener (logged run) n d l (c, (ev, (w, tr)))
                  = (c + 1, (?ev2, (w1, tr @ [(callback l, Returned)])))"
      using r Returned by (simp add: executeListener_def logged_def)
    from Cons.prems have
      "fold (executeListener (logged run) n d) ls
         (c + 1, (?ev2, (w1, tr @ [(callback l, Returned)]))) = (c', (ev', (w', tr')))"
      by (simp add: step)
    from Cons.IH [OF this] show ?thesis by (simp add: completed_def)
  next
    case Threw
    have step: "executeListener (logged run) n d l (c, (ev, (w, tr)))
                  = (c, (ev1, (w1, tr @ [(callback l, Threw)])))"
      using r Threw by (simp add: executeListener_def logged_def)
    from Cons.prems have
      "fold (executeListener (logged run) n d) ls
         (c, (ev1, (w1, tr @ [(callback l, Threw)]))) = (c', (ev', (w', tr')))"
      by (simp add: step)
    from Cons.IH [OF this] show ?thesis by (simp add: completed_def)
  qed
qed

lemma run_listeners_logged:
  "run_listeners (logged run) n d ls (ev, (w, [])) = (k, (ev', (w', tr))) \<Longrightarrow>
     map fst tr = map callback ls \<and> k = completed tr"
  using fold_logged [of run n d ls 0 ev w "[]" k ev' w' tr]
  by (simp add: run_listeners_def completed_def)

text \<open>
  C10 (as amended). Whatever the callbacks do, a synchronous \<open>emit\<close> (the default)
  invokes every subscribed listener once, in order, also after a callback that threw,
  and returns the number of listeners whose callback returned; no exception reaches the
  emitter (the result of \<open>emit\<close> is a value in every case). An \<open>emit\<close> with
  \<open>options.async\<close> invokes nothing before it returns: it returns 0, and the listeners
  are run by the timer task, which invokes every one of them in the same way.
\<close>

theorem emit_isolates_listeners:
  assumes "events eventName = Some listeners"
  shows "(case emit (logged run) eventName d False (events, (w, [])) of
            (n, deferred, (ev', (w', tr))) \<Rightarrow>
              deferred = [] \<and> map fst tr = map callback listeners \<and> n = completed tr)
       \<and> emit (logged run) eventName d True (events, (w, [])) = (0, listeners, (events, (w, [])))
       \<and> (case run_listeners (logged run) eventName d listeners (events, (w, [])) of
            (k, (ev', (w', tr))) \<Rightarrow> map fst tr = map callback listeners \<and> k = completed tr)"
proof -
  obtain k ev' w' tr where
    r: "run_listeners (logged run) eventName d listeners (events, (w, [])) = (k, (ev', (w', tr)))"
    by (metis prod.exhaust)
  from run_listeners_logged [OF r]
  have p: "map fst tr = map callback listeners \<and> k = completed tr" .
  have a: "emit (logged run) eventName d False (events, (w, [])) = (k, [], (ev', (w', tr)))"
    using assms r by (simp add: emit_def)
  have b: "emit (logged run) eventName d True (events, (w, [])) = (0, listeners, (events, (w, [])))"
    using assms by (simp add: emit_def)
  show ?thesis using a b r p by simp
qed

lemma demo_emit_sync:
  "emit (logged demo_runner) ''drawing-completed'' () False demo_bus
     = (2, [], ([''drawing-completed'' \<mapsto> take 2 demo_listeners],
                ((), [(0, Returned), (1, Threw), (2, Returned)])))"
  by (simp add: emit_def run_listeners_def executeListener_def logged_def demo_runner_def
      demo_listeners_def demo_bus_def off_def)

theorem emit_isolates_listeners_witness:
  "fst (emit (logged demo_runner) ''drawing-completed'' () False demo_bus) = 2
   \<and> snd (snd (snd (snd (emit (logged demo_runner) ''drawing-completed'' () False demo_bus))))
       = [(0, Returned), (1, Threw), (2, Returned)]
   \<and> fst (emit (logged demo_runner) ''drawing-completed'' () True demo_bus) = 0"
  using emit_isolates_listeners
    [of "[''drawing-completed'' \<mapsto> demo_listeners]" "''drawing-completed''" demo_listeners
        demo_runner "()" "()"]
  by (simp add: emit_def run_listeners_def executeListener_def logged_def demo_runner_def
      demo_listeners_def demo_bus_def off_def)

text \<open>
  The claim as stated fails for an asynchronous emission: \<open>emit\<close> returns 0 although two
  of the three listeners complete without throwing when the deferred task runs.
\<close>

theorem emit_async_count_counterexample:
  "fst (emit (logged demo_runner) ''drawing-completed'' () True demo_bus) = 0
   \<and> completed (snd (snd (snd (run_listeners (logged demo_runner) ''drawing-completed'' ()
        (fst (snd (emit (logged demo_runner) ''drawing-completed'' () True demo_bus)))
        demo_bus)))) = 2"
  by (simp add: emit_def run_listeners_def executeListener_def logged_def demo_runner_def
      demo_listeners_def demo_bus_def off_def completed_def)

section \<open>Properties of the collection: import and removal\<close>

lemma update_fresh: "k \<notin> fst ` set al \<Longrightarrow> AList.update k v al = al @ [(k, v)]"
  by (induction al) auto

lemma import_each_append:
  "inj_on gen {j ..< j + length recs} \<Longrightarrow>
   (\<forall>i. j \<le> i \<and> i < j + length recs \<longrightarrow> gen i \<notin> fst ` set ds) \<Longrightarrow>
   import_each gen j recs ds =
     ds @ map (\<lambda>(i, r). (gen i, import_entry (gen i) r)) (zip [j ..< j + length recs] recs)"
proof (induction recs arbitrary: j ds)
  case Nil
  then show ?case by simp
next
  case (Cons r recs)
  have fresh: "gen j \<notin> fst ` set ds" using Cons.prems(2) by simp
  have up: "AList.update (gen j) (import_entry (gen j) r) ds = ds @ [(gen j, import_entry (gen j) r)]"
    by (rule update_fresh [OF fresh])
  have iv: "[j ..< j + length (r # recs)] = j # [Suc j ..< Suc j + length recs]"
    by (simp add: upt_rec)
  have sub: "{Suc j ..< Suc j + length recs} \<subseteq> {j ..< j + length (r # recs)}"
    by auto
  have d: "inj_on gen {Suc j ..< Suc j + length recs}"
    by (rule inj_on_subset [OF Cons.prems(1) sub])
  have nj: "gen i \<noteq> gen j" if "Suc j \<le> i" "i < Suc j + length recs" for i
  proof
    assume "gen i = gen j"
    moreover have "i \<in> {j ..< j + length (r # recs)}" "j \<in> {j ..< j + length (r # recs)}"
      using that by auto
    ultimately have "i = j" using Cons.prems(1) by (meson inj_onD)
    with that show False by simp
  qed
  have f: "\<forall>i. Suc j \<le> i \<and> i < Suc j + length recs \<longrightarrow>
             gen i \<notin> fst ` set (ds @ [(gen j, import_entry (gen j) r)])"
    using Cons.prems(2) nj by auto
  show ?case
    using Cons.IH [OF d f] unfolding iv by (simp add: up)
qed

lemma import_each_stores_all:
  assumes "inj_on gen {0 ..< length recs}"
    and "\<forall>i < length recs. gen i \<notin> fst ` set ds"
  shows "length (import_each gen 0 recs ds) = length ds + length recs"
    and "map (e_data \<circ> snd) (import_each gen 0 recs ds) = map (e_data \<circ> snd) ds @ map r_data recs"
    and "map fst (import_each gen 0 recs ds) = map fst ds @ map gen [0 ..< length recs]"
proof -
  have eq: "import_each gen 0 recs ds =
     ds @ map (\<lambda>(i, r). (gen i, import_entry (gen i) r)) (zip [0 ..< length recs] recs)"
    using import_each_append [of gen 0 recs ds] assms by simp
  show "length (import_each gen 0 recs ds) = length ds + length recs"
    by (simp add: eq)
  have "map ((e_data \<circ> snd) \<circ> (\<lambda>(i, r). (gen i, import_entry (gen i) r))) (zip [0 ..< length recs] recs)
        = map (r_data \<circ> snd) (zip [0 ..< length recs] recs)"
    by (rule map_cong) (auto simp: import_entry_def)
  also have "\<dots> = map r_data recs"
    by (simp flip: map_map)
  finally show "map (e_data \<circ> snd) (import_each gen 0 recs ds) = map (e_data \<circ> snd) ds @ map r_data recs"
    by (simp add: eq)
  have "map (fst \<circ> (\<lambda>(i, r). (gen i, import_entry (gen i) r))) (zip [0 ..< length recs] recs)
        = map (gen \<circ> fst) (zip [0 ..< length recs] recs)"
    by (rule map_cong) auto
  also have "\<dots> = map gen [0 ..< length recs]"
    by (simp flip: map_map)
  finally show "map fst (import_each gen 0 recs ds) = map fst ds @ map gen [0 ..< length recs]"
    by (simp add: eq)
qed

lemma demo_gen_inj: "inj_on demo_gen A"
  by (rule inj_onI) (simp add: demo_gen_def replicate_eq_replicate)

text \<open>
  C3 (as amended). \<open>importDrawings\<close> validates nothing: every record of the batch, well
  formed or not, is stored as it is under the id generated for it, in order, and one
  \<open>drawings-imported\<close> event carries the batch length. With generated ids that are
  distinct and not yet in the collection, the collection grows by exactly the batch
  length. An argument that is not an array changes nothing. Both managers agree; the
  primitive-based one also repaints the host chart, which here is taken not to throw.
\<close>

theorem importDrawings_stores_every_record:
  assumes "inj_on gen {0 ..< length records}"
    and "\<forall>i < length records. gen i \<notin> fst ` set (drawings s) \<and> gen i \<notin> fst ` set (c_drawings c)"
    and "chart_ok s" and "\<not> throws env Repaint"
  shows "(case importDrawings env (Array records) gen s of
            (out, s') \<Rightarrow>
              out = Returned
              \<and> length (drawings s') = length (drawings s) + length records
              \<and> map (e_data \<circ> snd) (drawings s') = map (e_data \<circ> snd) (drawings s) @ map r_data records
              \<and> emitted s' = emitted s @ [DrawingsImported (length records)])
       \<and> (let c' = c_importDrawings (Array records) gen c in
              length (c_drawings c') = length (c_drawings c) + length records
              \<and> map (e_data \<circ> snd) (c_drawings c') = map (e_data \<circ> snd) (c_drawings c) @ map r_data records
              \<and> c_emitted c' = c_emitted c @ [DrawingsImported (length records)])
       \<and> importDrawings env NotAnArray gen s = (Returned, s)
       \<and> c_importDrawings NotAnArray gen c = c"
proof -
  have a: "\<forall>i < length records. gen i \<notin> fst ` set (drawings s)"
    and b: "\<forall>i < length records. gen i \<notin> fst ` set (c_drawings c)"
    using assms(2) by auto
  note m = import_each_stores_all(1,2) [OF assms(1) a]
  note k = import_each_stores_all(1,2) [OF assms(1) b]
  show ?thesis
    using m k assms(3,4)
    by (simp add: importDrawings_def c_importDrawings_def host_def and_then_def publish_def
        c_scheduleRedraw_def)
qed

theorem importDrawings_stores_every_record_witness:
  "length (drawings (snd (importDrawings demo_env (Array demo_batch) demo_gen demo_idle))) = 5
   \<and> length (c_drawings (c_importDrawings (Array demo_batch) demo_gen demo_canvas)) = 5"
proof -
  have fresh: "\<forall>i < length demo_batch.
      demo_gen i \<notin> fst ` set (drawings demo_idle) \<and> demo_gen i \<notin> fst ` set (c_drawings demo_canvas)"
    by (simp add: demo_idle_def new_DrawingManager_def demo_canvas_def)
  have ok: "chart_ok demo_idle" "\<not> throws demo_env Repaint"
    by (simp_all add: demo_idle_def new_DrawingManager_def demo_env_def)
  note t = importDrawings_stores_every_record [OF demo_gen_inj fresh ok]
  obtain out s' where r: "importDrawings demo_env (Array demo_batch) demo_gen demo_idle = (out, s')"
    by (cases "importDrawings demo_env (Array demo_batch) demo_gen demo_idle")
  have n: "length demo_batch = 5" "drawings demo_idle = []" "c_drawings demo_canvas = []"
    by (simp_all add: demo_batch_def demo_idle_def new_DrawingManager_def demo_canvas_def)
  from t show ?thesis
    unfolding r by (simp add: n Let_def)
qed

text \<open>
  The claim as stated fails: a batch of five records whose third has no end anchor yields
  five stored drawings, the malformed one among them, in both managers.
\<close>

theorem import_malformed_counterexample:
  "length (drawings (snd (importDrawings demo_env (Array demo_batch) demo_gen demo_idle))) = 5
   \<and> fst (importDrawings demo_env (Array demo_batch) demo_gen demo_idle) = Returned
   \<and> map (\<lambda>(k, e). map_option endPoint (e_data e))
        (drawings (snd (importDrawings demo_env (Array demo_batch) demo_gen demo_idle))) ! 2
       = Some None
   \<and> length (c_drawings (c_importDrawings (Array demo_batch) demo_gen demo_canvas)) = 5"
  by (simp add: importDrawings_def c_importDrawings_def host_def and_then_def publish_def
      c_scheduleRedraw_def demo_idle_def new_DrawingManager_def demo_canvas_def demo_env_def
      demo_batch_def demo_gen_def import_entry_def demo_malformed_def demo_record_def
      blank_drawing_def)

lemma map_of_delete_same: "map_of (AList.delete k al) k = None"
  by (simp add: delete_conv')

lemma map_of_delete_other: "k' \<noteq> k \<Longrightarrow> map_of (AList.delete k al) k' = map_of al k'"
  by (simp add: delete_conv')

text \<open>
  C9. \<open>removeDrawing\<close> with an id that is not in the collection returns normally and
  leaves the whole manager state as it was (the collection, every stored drawing, the
  host and the events published: no removal event). With an id that is present, and a
  host that does not throw, the entry is deleted and no other entry changes, the entry's
  primitive (when it has one) is detached from the series before the repaint, and one
  \<open>drawing-removed\<close> event is published. The canvas-based manager does the same without
  a primitive to detach.
\<close>

theorem removeDrawing_absent_is_noop:
  "(map_of (drawings s) drawingId = None \<longrightarrow> removeDrawing env drawingId s = (Returned, s))
   \<and> (map_of (c_drawings c) drawingId = None \<longrightarrow> c_removeDrawing drawingId c = c)
   \<and> (map_of (drawings s) drawingId = Some e \<and> chart_ok s \<and> (\<forall>h. \<not> throws env h) \<longrightarrow>
        (case removeDrawing env drawingId s of
           (out, s') \<Rightarrow>
             out = Returned
             \<and> drawings s' = AList.delete drawingId (drawings s)
             \<and> map_of (drawings s') drawingId = None
             \<and> (\<forall>k. k \<noteq> drawingId \<longrightarrow> map_of (drawings s') k = map_of (drawings s) k)
             \<and> (\<forall>p. e_primitive e = Some p \<longrightarrow>
                    prim_ref p \<notin> prim_ref ` set (attached s')
                    \<and> host_calls s' = host_calls s @ [DetachPrimitive (prim_ref p), Repaint])
             \<and> emitted s' = emitted s @ [DrawingRemoved drawingId]))
   \<and> (map_of (c_drawings c) drawingId \<noteq> None \<longrightarrow>
        (let c' = c_removeDrawing drawingId c in
           c_drawings c' = AList.delete drawingId (c_drawings c)
           \<and> map_of (c_drawings c') drawingId = None
           \<and> c_emitted c' = c_emitted c @ [DrawingRemoved drawingId]))"
proof (intro conjI impI)
  assume "map_of (drawings s) drawingId = None"
  then show "removeDrawing env drawingId s = (Returned, s)"
    by (simp add: removeDrawing_def)
next
  assume "map_of (c_drawings c) drawingId = None"
  then show "c_removeDrawing drawingId c = c"
    by (simp add: c_removeDrawing_def)
next
  assume a: "map_of (drawings s) drawingId = Some e \<and> chart_ok s \<and> (\<forall>h. \<not> throws env h)"
  show "case removeDrawing env drawingId s of
           (out, s') \<Rightarrow>
             out = Returned
             \<and> drawings s' = AList.delete drawingId (drawings s)
             \<and> map_of (drawings s') drawingId = None
             \<and> (\<forall>k. k \<noteq> drawingId \<longrightarrow> map_of (drawings s') k = map_of (drawings s) k)
             \<and> (\<forall>p. e_primitive e = Some p \<longrightarrow>
                    prim_ref p \<notin> prim_ref ` set (attached s')
                    \<and> host_calls s' = host_calls s @ [DetachPrimitive (prim_ref p), Repaint])
             \<and> emitted s' = emitted s @ [DrawingRemoved drawingId]"
  proof (cases "e_primitive e")
    case None
    with a show ?thesis
      by (simp add: removeDrawing_def host_def and_then_def publish_def
          map_of_delete_same map_of_delete_other)
  next
    case (Some p)
    with a show ?thesis
      by (auto simp add: removeDrawing_def host_def and_then_def publish_def
          map_of_delete_same map_of_delete_other)
  qed
next
  assume "map_of (c_drawings c) drawingId \<noteq> None"
  then show "let c' = c_removeDrawing drawingId c in
           c_drawings c' = AList.delete drawingId (c_drawings c)
           \<and> map_of (c_drawings c') drawingId = None
           \<and> c_emitted c' = c_emitted c @ [DrawingRemoved drawingId]"
    by (auto simp add: c_removeDrawing_def c_scheduleRedraw_def map_of_delete_same)
qed

theorem removeDrawing_absent_is_noop_witness:
  "removeDrawing demo_env ''drawing_2'' demo_holding = (Returned, demo_holding)
   \<and> c_removeDrawing ''drawing_2'' demo_canvas_holding = demo_canvas_holding
   \<and> drawings (snd (removeDrawing demo_env ''drawing_1'' demo_holding)) = []
   \<and> attached (snd (removeDrawing demo_env ''drawing_1'' demo_holding)) = []
   \<and> emitted (snd (removeDrawing demo_env ''drawing_1'' demo_holding)) = [DrawingRemoved ''drawing_1'']
   \<and> c_drawings (c_removeDrawing ''drawing_1'' demo_canvas_holding) = []"
proof -
  have absent: "map_of (drawings demo_holding) ''drawing_2'' = None"
    "map_of (c_drawings demo_canvas_holding) ''drawing_2'' = None"
    by (simp_all add: demo_holding_def demo_canvas_holding_def)
  have present: "map_of (drawings demo_holding) ''drawing_1'' = Some demo_entry
      \<and> chart_ok demo_holding \<and> (\<forall>h. \<not> throws demo_env h)"
    "map_of (c_drawings demo_canvas_holding) ''drawing_1'' \<noteq> None"
    by (simp_all add: demo_holding_def demo_canvas_holding_def demo_idle_def
        new_DrawingManager_def demo_env_def)
  note t1 = removeDrawing_absent_is_noop [of demo_holding "''drawing_2''" demo_env demo_canvas_holding]
  note t2 = removeDrawing_absent_is_noop
    [of demo_holding "''drawing_1''" demo_env demo_canvas_holding demo_entry]
  obtain out s' where r: "removeDrawing demo_env ''drawing_1'' demo_holding = (out, s')"
    by (cases "removeDrawing demo_env ''drawing_1'' demo_holding")
  have p: "e_primitive demo_entry = Some demo_primitive"
    by (simp add: demo_entry_def)
  have d: "AList.delete ''drawing_1'' (drawings demo_holding) = []"
    "AList.delete ''drawing_1'' (c_drawings demo_canvas_holding) = []"
    "emitted demo_holding = []"
    by (simp_all add: demo_holding_def demo_canvas_holding_def AList.delete_eq demo_idle_def
        new_DrawingManager_def)
  have att: "attached s' = []"
  proof -
    have "attached s' = filter (\<lambda>q. prim_ref q \<noteq> prim_ref demo_primitive) (attached demo_holding)"
      using r present(1) p
      by (auto simp add: removeDrawing_def host_def and_then_def publish_def)
    then show ?thesis by (simp add: demo_holding_def)
  qed
  from t1 absent have "removeDrawing demo_env ''drawing_2'' demo_holding = (Returned, demo_holding)"
    "c_removeDrawing ''drawing_2'' demo_canvas_holding = demo_canvas_holding" by simp_all
  moreover from t2 present r have "drawings s' = []" "emitted s' = [DrawingRemoved ''drawing_1'']"
    "c_drawings (c_removeDrawing ''drawing_1'' demo_canvas_holding) = []"
    by (simp_all add: d Let_def)
  ultimately show ?thesis using r att by simp
qed

section \<open>Properties of gestures: the navigation lock\<close>

lemma startDrawing_points:
  "kind t = HorizontalLine \<or>
     (startPoint (startDrawing t coords opts now) \<noteq> None \<and> endPoint (startDrawing t coords opts now) \<noteq> None)"
  by (cases "kind t")
     (simp_all add: startDrawing_def createDrawing_def tl_createDrawing_def fib_createDrawing_def
        blank_drawing_def Let_def)

lemma updateDrawing_points:
  "startPoint d \<noteq> None \<and> endPoint d \<noteq> None \<Longrightarrow>
     startPoint (updateDrawing t d coords) \<noteq> None \<and> endPoint (updateDrawing t d coords) \<noteq> None"
  by (cases "kind t")
     (auto simp add: updateDrawing_def tl_updateDrawingData_def fib_updateDrawingData_def
        hl_updateDrawingData_def Let_def)

lemma finishDrawing_returns:
  "kind t = HorizontalLine \<or> (startPoint d \<noteq> None \<and> endPoint d \<noteq> None) \<Longrightarrow>
     \<exists>d1. finishDrawing t d coords = (Returned, d1)
        \<and> (kind t = TrendLine \<longrightarrow> startPoint d1 \<noteq> None \<and> endPoint d1 \<noteq> None)"
  by (cases "kind t")
     (auto simp add: finishDrawing_def tl_finalizeDrawingData_def fib_finalizeDrawingData_def
        tl_updateDrawingData_def fib_updateDrawingData_def Let_def)

lemma mouse_down_locks:
  assumes "armed s r" and "\<not> throws env NavOff"
  shows "in_gesture (snd (step env (MouseDown ev now) s)) r"
    and "host_calls (snd (step env (MouseDown ev now) s)) = host_calls s @ [NavOff]"
    and "heap (snd (step env (MouseDown ev now) s)) = heap s"
    and "drawings (snd (step env (MouseDown ev now) s)) = drawings s"
  using assms startDrawing_points [of "heap s r" "screenToChart env s ev" "m_options s" now]
  by (auto simp add: armed_def in_gesture_def handleMouseDown_def disableNavigation_def host_def
      and_then_def publish_def Let_def)

lemma mouse_move_keeps:
  assumes "in_gesture s r"
  shows "in_gesture (snd (step env (MouseMove ev) s)) r"
    and "host_calls (snd (step env (MouseMove ev) s)) = host_calls s"
    and "heap (snd (step env (MouseMove ev) s)) = heap s"
    and "drawings (snd (step env (MouseMove ev) s)) = drawings s"
proof -
  from assms obtain d where d: "currentDrawing s = Some d"
    and w: "kind (heap s r) = HorizontalLine \<or> (startPoint d \<noteq> None \<and> endPoint d \<noteq> None)"
    by (auto simp: in_gesture_def)
  have st: "snd (step env (MouseMove ev) s) =
      publish (DrawingMouseMove (getName (heap s r)) (screenToChart env s ev) True)
        (s\<lparr>currentDrawing := Some (updateDrawing (heap s r) d (screenToChart env s ev))\<rparr>)"
    using assms d by (simp add: in_gesture_def handleMouseMove_def Let_def)
  show "in_gesture (snd (step env (MouseMove ev) s)) r"
    unfolding st using assms d w updateDrawing_points [of d "heap s r" "screenToChart env s ev"]
    by (auto simp add: in_gesture_def publish_def)
  show "host_calls (snd (step env (MouseMove ev) s)) = host_calls s"
    unfolding st by (simp add: publish_def)
  show "heap (snd (step env (MouseMove ev) s)) = heap s"
    unfolding st by (simp add: publish_def)
  show "drawings (snd (step env (MouseMove ev) s)) = drawings s"
    unfolding st by (simp add: publish_def)
qed

lemma mouse_moves_keep:
  "in_gesture s r \<Longrightarrow>
     in_gesture (run_events env (map MouseMove ms) s) r
     \<and> host_calls (run_events env (map MouseMove ms) s) = host_calls s"
proof (induction ms arbitrary: s)
  case Nil
  then show ?case by simp
next
  case (Cons m ms)
  from mouse_move_keeps(1,2) [OF Cons.prems, of env m]
  have a: "in_gesture (snd (step env (MouseMove m) s)) r"
    and b: "host_calls (snd (step env (MouseMove m) s)) = host_calls s" by simp_all
  from Cons.IH [OF a] b show ?case by simp
qed

lemma restore_releases:
  assumes "chart_ok s" "navigationLocked s" "originalNavigationOptions s" "\<not> throws env NavRestore"
  shows "restoreNavigation env s =
           (Returned, s\<lparr>host_calls := host_calls s @ [NavRestore], navigationLocked := False\<rparr>)"
  using assms by (simp add: restoreNavigation_def host_def and_then_def)

lemma mouse_up_releases:
  assumes g: "in_gesture s r" and h: "host_ok env"
  shows "\<not> navigationLocked (snd (step env (MouseUp ev now newId) s))
     \<and> filter is_nav (host_calls (snd (step env (MouseUp ev now newId) s)))
         = filter is_nav (host_calls s) @ [NavRestore]
     \<and> fst (step env (MouseUp ev now newId) s) = Returned
     \<and> \<not> isDrawing (snd (step env (MouseUp ev now newId) s))"
proof -
  from g obtain d where d: "currentDrawing s = Some d"
    and w: "kind (heap s r) = HorizontalLine \<or> (startPoint d \<noteq> None \<and> endPoint d \<noteq> None)"
    by (auto simp: in_gesture_def)
  let ?c = "screenToChart env s ev"
  from finishDrawing_returns [OF w, of ?c] obtain d1 where
    f: "finishDrawing (heap s r) d ?c = (Returned, d1)"
    and p: "kind (heap s r) = TrendLine \<longrightarrow> startPoint d1 \<noteq> None \<and> endPoint d1 \<noteq> None"
    by blast
  have nt: "\<And>c. \<not> throws env c" using h by (simp add: host_ok_def)
  have fin: "\<And>n b s0. chart_ok s0 \<Longrightarrow> navigationLocked s0 \<Longrightarrow> originalNavigationOptions s0 \<Longrightarrow>
      finish_gesture env n ?c b s0 =
        (Returned, publish (DrawingCompleted n ?c b)
           (s0\<lparr>isDrawing := False, currentDrawing := None,
               host_calls := host_calls s0 @ [NavRestore], navigationLocked := False\<rparr>))"
    by (simp add: finish_gesture_def restoreNavigation_def host_def and_then_def nt)
  show ?thesis
  proof (cases "kind (heap s r)")
    case TrendLine
    with p have pts: "startPoint d1 \<noteq> None" "endPoint d1 \<noteq> None" by simp_all
    show ?thesis
    proof (cases "primitive_throws env")
      case True
      then show ?thesis
        using g d f TrendLine pts
        by (simp add: in_gesture_def handleMouseUp_def Let_def createTrendLinePrimitive_def fin
            publish_def)
    next
      case False
      then show ?thesis
        using g d f TrendLine pts
        by (simp add: in_gesture_def handleMouseUp_def Let_def createTrendLinePrimitive_def fin
            publish_def host_def and_then_def nt)
    qed
  next
    case HorizontalLine
    then show ?thesis
      using g d f by (simp add: in_gesture_def handleMouseUp_def Let_def fin publish_def)
  next
    case FibRetracement
    then show ?thesis
      using g d f by (simp add: in_gesture_def handleMouseUp_def Let_def fin publish_def)
  qed
qed

lemma set_tool_releases:
  assumes g: "in_gesture s r" and h: "host_ok env"
  shows "\<not> navigationLocked (snd (step env (SetActiveTool t) s))
     \<and> filter is_nav (host_calls (snd (step env (SetActiveTool t) s)))
         = filter is_nav (host_calls s) @ [NavRestore]
     \<and> fst (step env (SetActiveTool t) s) = Returned"
proof -
  have nt: "\<And>c. \<not> throws env c" using h by (simp add: host_ok_def)
  show ?thesis
    using g
    by (cases t)
       (simp_all add: in_gesture_def setActiveTool_def restoreNavigation_def host_def and_then_def
          nt set_tool_active_def publish_def Let_def)
qed

lemma detach_all_ok:
  "host_ok env \<Longrightarrow> chart_ok s \<Longrightarrow>
     \<exists>s'. detach_all env es s = (Returned, s') \<and> chart_ok s'
        \<and> navigationLocked s' = navigationLocked s
        \<and> filter is_nav (host_calls s') = filter is_nav (host_calls s)"
proof (induction es arbitrary: s)
  case Nil
  then show ?case by simp
next
  case (Cons a es)
  obtain k e where a: "a = (k, e)" by (cases a)
  have nt: "\<And>c. \<not> throws env c" using Cons.prems(1) by (simp add: host_ok_def)
  show ?case
  proof (cases "e_primitive e")
    case None
    with Cons a show ?thesis by simp
  next
    case (Some p)
    let ?s1 = "s\<lparr>host_calls := host_calls s @ [DetachPrimitive (prim_ref p)],
                 attached := filter (\<lambda>q. prim_ref q \<noteq> prim_ref p) (attached s)\<rparr>"
    have c: "chart_ok ?s1" using Cons.prems(2) by simp
    from Cons.IH [OF Cons.prems(1) c] obtain s' where
      "detach_all env es ?s1 = (Returned, s')" "chart_ok s'"
      "navigationLocked s' = navigationLocked ?s1"
      "filter is_nav (host_calls s') = filter is_nav (host_calls ?s1)" by blast
    then show ?thesis
      using a Some Cons.prems(2) by (simp add: host_def and_then_def nt)
  qed
qed

lemma destroy_releases:
  assumes g: "in_gesture s r" and h: "host_ok env"
  shows "\<not> navigationLocked (snd (step env Destroy s))
     \<and> filter is_nav (host_calls (snd (step env Destroy s)))
         = filter is_nav (host_calls s) @ [NavRestore]
     \<and> fst (step env Destroy s) = Returned"
proof -
  have nt: "\<And>c. \<not> throws env c" using h by (simp add: host_ok_def)
  let ?s1 = "s\<lparr>host_calls := host_calls s @ [NavRestore], navigationLocked := False\<rparr>"
  have r: "restoreNavigation env s = (Returned, ?s1)"
    using g by (simp add: in_gesture_def restore_releases nt)
  have c: "chart_ok ?s1" using g by (simp add: in_gesture_def)
  from detach_all_ok [OF h c, of "drawings ?s1"] obtain s2 where
    d: "detach_all env (drawings ?s1) ?s1 = (Returned, s2)" and c2: "chart_ok s2"
    and n2: "navigationLocked s2 = navigationLocked ?s1"
    and f2: "filter is_nav (host_calls s2) = filter is_nav (host_calls ?s1)" by blast
  show ?thesis
    using r d c2 n2 f2
    by (simp add: destroy_def clearAllDrawings_def and_then_def host_def nt publish_def)
qed

text \<open>
  C1 (as amended). From an armed manager, with a host chart whose calls return, a
  gesture (pointer-down, any number of pointer-moves, then its end) acquires the
  navigation lock once, at pointer-down, holds it during the moves, and releases it
  once when the gesture ends by commit (pointer-up), by a tool change or deselection, or
  by \<open>destroy\<close>: \<open>navigationLocked\<close> is false afterwards, and the host has seen exactly
  one lock call and one restore call.
\<close>

theorem navigation_lock_released:
  assumes "armed s r" and "host_ok env" and "is_exit e"
  shows "navigationLocked (run_events env (MouseDown ev now # map MouseMove ms) s)
     \<and> \<not> navigationLocked (run_events env (MouseDown ev now # map MouseMove ms @ [e]) s)
     \<and> filter is_nav (host_calls (run_events env (MouseDown ev now # map MouseMove ms @ [e]) s))
         = filter is_nav (host_calls s) @ [NavOff, NavRestore]"
proof -
  have nt: "\<not> throws env NavOff" using assms(2) by (simp add: host_ok_def)
  let ?s1 = "snd (step env (MouseDown ev now) s)"
  let ?s2 = "run_events env (map MouseMove ms) ?s1"
  note dn = mouse_down_locks(1,2) [OF assms(1) nt, of ev now]
  from mouse_moves_keep [OF dn(1), of env ms]
  have g2: "in_gesture ?s2 r" and h2: "host_calls ?s2 = host_calls s @ [NavOff]"
    using dn(2) by simp_all
  have run: "run_events env (MouseDown ev now # map MouseMove ms @ [e]) s = snd (step env e ?s2)"
  proof -
    have "\<And>xs t. run_events env (xs @ [e]) t = snd (step env e (run_events env xs t))"
    proof -
      fix xs t show "run_events env (xs @ [e]) t = snd (step env e (run_events env xs t))"
        by (induction xs arbitrary: t) simp_all
    qed
    from this [of "MouseDown ev now # map MouseMove ms" s] show ?thesis by simp
  qed
  have ex: "\<not> navigationLocked (snd (step env e ?s2))
     \<and> filter is_nav (host_calls (snd (step env e ?s2))) = filter is_nav (host_calls ?s2) @ [NavRestore]"
  proof (cases e)
    case (MouseUp x1 x2 x3)
    then show ?thesis using mouse_up_releases [OF g2 assms(2), of x1 x2 x3] by simp
  next
    case (SetActiveTool t)
    then show ?thesis using set_tool_releases [OF g2 assms(2), of t] by simp
  next
    case Destroy
    then show ?thesis using destroy_releases [OF g2 assms(2)] by simp
  qed (use assms(3) in simp_all)
  have mid: "navigationLocked ?s2" using g2 by (simp add: in_gesture_def)
  show ?thesis
    using mid ex h2 unfolding run by simp
qed

lemma demo_armed_eq:
  "demo_armed = demo_idle\<lparr>isActive := True, currentTool := Some 0, listening := True,
      container_cursor := ''crosshair'',
      heap := (heap demo_idle)(0 := (heap demo_idle 0)\<lparr>t_isActive := True\<rparr>),
      emitted := [DrawingToolActivated ''TrendLine'']\<rparr>"
  by (simp add: demo_armed_def demo_idle_def new_DrawingManager_def setActiveTool_def and_then_def
      set_tool_active_def publish_def Let_def new_tool_def)

lemma demo_armed_armed: "armed demo_armed 0"
  by (simp add: demo_armed_eq armed_def demo_idle_def new_DrawingManager_def)

lemma demo_env_ok: "host_ok demo_env"
  by (simp add: host_ok_def demo_env_def)

theorem navigation_lock_released_witness:
  "navigationLocked (run_events demo_env (take 2 demo_gesture) demo_armed)
   \<and> \<not> navigationLocked (run_events demo_env demo_gesture demo_armed)
   \<and> filter is_nav (host_calls (run_events demo_env demo_gesture demo_armed)) = [NavOff, NavRestore]"
proof -
  have e: "is_exit (MouseUp \<lparr>clientX = 110, clientY = 20\<rparr> 1700000000500 ''drawing_1700000000500_k3x9q2'')"
    by simp
  have h: "host_calls demo_armed = []"
    by (simp add: demo_armed_eq demo_idle_def new_DrawingManager_def)
  from navigation_lock_released [OF demo_armed_armed demo_env_ok e,
      of "\<lparr>clientX = 10, clientY = 20\<rparr>" 1700000000000 "[\<lparr>clientX = 60, clientY = 40\<rparr>]"]
  show ?thesis by (simp add: demo_gesture_def h)
qed

lemma update_has_key: "k \<in> fst ` set (AList.update k v al)"
  by (induction al) auto

lemma mouse_up_repaint_throws:
  assumes g: "in_gesture s r" and k: "kind (heap s r) = TrendLine"
    and p: "\<not> primitive_throws env" and a: "\<forall>n. \<not> throws env (AttachPrimitive n)"
    and t: "throws env Repaint"
  shows "fst (step env (MouseUp ev now newId) s) = Threw
     \<and> navigationLocked (snd (step env (MouseUp ev now newId) s))
     \<and> isDrawing (snd (step env (MouseUp ev now newId) s))
     \<and> newId \<in> fst ` set (drawings (snd (step env (MouseUp ev now newId) s)))"
proof -
  from g obtain d where d: "currentDrawing s = Some d"
    and w: "kind (heap s r) = HorizontalLine \<or> (startPoint d \<noteq> None \<and> endPoint d \<noteq> None)"
    by (auto simp: in_gesture_def)
  let ?c = "screenToChart env s ev"
  from finishDrawing_returns [OF w, of ?c] obtain d1 where
    f: "finishDrawing (heap s r) d ?c = (Returned, d1)"
    and pp: "kind (heap s r) = TrendLine \<longrightarrow> startPoint d1 \<noteq> None \<and> endPoint d1 \<noteq> None"
    by blast
  from pp k have pts: "startPoint d1 \<noteq> None" "endPoint d1 \<noteq> None" by simp_all
  have a': "\<And>n. throws env (AttachPrimitive n) = False" using a by simp
  show ?thesis
    using g d f k p t
    by (simp add: in_gesture_def handleMouseUp_def Let_def createTrendLinePrimitive_def
        host_def and_then_def update_has_key pts a')
qed

text \<open>
  The cancel path: \<open>handleMouseLeave\<close> resets the gesture and then calls a method the
  class does not have, so it throws before it reaches \<open>restoreNavigation\<close>.
\<close>

lemma mouse_leave_throws:
  assumes "in_gesture s r"
  shows "step env MouseLeave s = (Threw, s\<lparr>isDrawing := False, currentDrawing := None\<rparr>)"
  using assms
  by (auto simp add: in_gesture_def handleMouseLeave_def scheduleRedraw_def and_then_def)

text \<open>
  The claim as stated fails where it says "even if the host repaint call performed
  during commit throws": \<open>handleMouseUp\<close> has no \<open>try\<close>/\<open>finally\<close>, so a repaint that
  throws ends the handler before \<open>restoreNavigation\<close>. The drawing is committed, the
  gesture is over, and the lock is still held.
\<close>

theorem lock_held_after_failed_repaint_counterexample:
  "navigationLocked (run_events repaint_fails_env demo_gesture demo_armed)
   \<and> fst (step repaint_fails_env (last demo_gesture)
            (run_events repaint_fails_env (butlast demo_gesture) demo_armed)) = Threw
   \<and> ''drawing_1700000000500_k3x9q2''
       \<in> fst ` set (drawings (run_events repaint_fails_env demo_gesture demo_armed))"
proof -
  define s1 where "s1 = snd (step repaint_fails_env
      (MouseDown \<lparr>clientX = 10, clientY = 20\<rparr> 1700000000000) demo_armed)"
  define s2 where "s2 = snd (step repaint_fails_env (MouseMove \<lparr>clientX = 60, clientY = 40\<rparr>) s1)"
  define up where
    "up = MouseUp \<lparr>clientX = 110, clientY = 20\<rparr> 1700000000500 ''drawing_1700000000500_k3x9q2''"
  have n: "\<not> throws repaint_fails_env NavOff" "\<not> primitive_throws repaint_fails_env"
    "\<forall>n. \<not> throws repaint_fails_env (AttachPrimitive n)" "throws repaint_fails_env Repaint"
    by (simp_all add: repaint_fails_env_def demo_env_def)
  note dn = mouse_down_locks [OF demo_armed_armed n(1),
      of "\<lparr>clientX = 10, clientY = 20\<rparr>" 1700000000000, folded s1_def]
  note mv = mouse_move_keeps [OF dn(1), of repaint_fails_env "\<lparr>clientX = 60, clientY = 40\<rparr>",
      folded s2_def]
  have k: "kind (heap s2 0) = TrendLine"
    unfolding mv(3) dn(3)
    by (simp add: demo_armed_eq demo_idle_def new_DrawingManager_def new_tool_def)
  note u = mouse_up_repaint_throws [OF mv(1) k n(2) n(3) n(4),
      of "\<lparr>clientX = 110, clientY = 20\<rparr>" 1700000000500 "''drawing_1700000000500_k3x9q2''",
      folded up_def]
  have run: "run_events repaint_fails_env demo_gesture demo_armed
               = snd (step repaint_fails_env up s2)"
    unfolding s2_def s1_def up_def demo_gesture_def by (simp only: run_events.simps)
  have bl: "run_events repaint_fails_env (butlast demo_gesture) demo_armed = s2"
    unfolding s2_def s1_def demo_gesture_def by (simp only: butlast.simps run_events.simps) simp
  have la: "last demo_gesture = up"
    unfolding up_def demo_gesture_def by simp
  show ?thesis
    unfolding run bl la using u by simp
qed

section \<open>Properties of tool selection\<close>

lemma setActiveTool_None:
  assumes "\<not> throws env NavRestore"
  shows "\<exists>s'. setActiveTool env None s = (Returned, s')
     \<and> currentTool s' = None \<and> \<not> isActive s' \<and> \<not> listening s'
     \<and> container_cursor s' = ''default''
     \<and> (\<forall>cur. currentTool s = Some cur \<longrightarrow> \<not> t_isActive (heap s' cur))
     \<and> emitted s' = emitted s @ [DrawingToolDeactivated]"
  using assms
  by (cases "currentTool s")
     (auto simp add: setActiveTool_def restoreNavigation_def host_def and_then_def
        set_tool_active_def publish_def Let_def)

lemma setActiveTool_Some:
  assumes "\<not> throws env NavRestore"
  shows "\<exists>s'. setActiveTool env (Some r) s = (Returned, s')
     \<and> currentTool s' = Some r \<and> isActive s' \<and> listening s'
     \<and> t_isActive (heap s' r)
     \<and> (\<forall>cur. currentTool s = Some cur \<and> cur \<noteq> r \<longrightarrow> \<not> t_isActive (heap s' cur))
     \<and> emitted s' = emitted s @ [DrawingToolActivated (getName (heap s' r))]"
  using assms
  by (cases "currentTool s")
     (auto simp add: setActiveTool_def restoreNavigation_def host_def and_then_def
        set_tool_active_def publish_def Let_def)

lemma getToolInstance_frame:
  "getToolInstance env n s = (t, s1) \<Longrightarrow>
     currentTool s1 = currentTool s \<and> emitted s1 = emitted s
     \<and> (\<forall>cur. Some cur \<noteq> t \<longrightarrow> heap s1 cur = heap s cur)"
  by (auto simp add: getToolInstance_def split: if_splits option.splits)

text \<open>
  C5 (as amended). Selecting in the toolbar the tool it holds as current is a toggle-off:
  the toolbar clears its selection and publishes \<open>drawing-tool-deselected\<close>, on which the
  manager deactivates its tool (if it has one), goes Idle and publishes
  \<open>drawing-tool-deactivated\<close>. Selecting another id publishes \<open>drawing-tool-selected\<close>;
  the manager looks the id up in its registry. When the id resolves to a tool, the prior
  tool is deactivated and the new one activated, with \<open>drawing-tool-activated\<close>
  published; when it does not, the manager is left Idle exactly as after a deselection,
  while the toolbar shows the new id as selected. (The host's restore call, made only
  when a gesture holds the navigation lock, is taken not to throw.)
\<close>

theorem toolbar_reselect_toggles_off:
  assumes "\<not> throws env NavRestore"
  shows "(tb_currentTool tb = Some toolId \<longrightarrow>
          (case selectTool env toolId (tb, s) of
             (tb', s') \<Rightarrow>
               tb_currentTool tb' = None \<and> activeButton tb' = None
               \<and> currentTool s' = None \<and> \<not> isActive s' \<and> \<not> listening s'
               \<and> (\<forall>cur. currentTool s = Some cur \<longrightarrow> \<not> t_isActive (heap s' cur))
               \<and> emitted s' = emitted s @ [DrawingToolDeactivated]))
       \<and> (tb_currentTool tb \<noteq> Some toolId \<longrightarrow>
          (case selectTool env toolId (tb, s) of
             (tb', s') \<Rightarrow>
               tb_currentTool tb' = Some toolId
               \<and> (case fst (getToolInstance env toolId s) of
                     Some r \<Rightarrow>
                       currentTool s' = Some r \<and> isActive s' \<and> listening s'
                       \<and> t_isActive (heap s' r)
                       \<and> (\<forall>cur. currentTool s = Some cur \<and> cur \<noteq> r \<longrightarrow>
                              \<not> t_isActive (heap s' cur))
                       \<and> emitted s' = emitted s @ [DrawingToolActivated (getName (heap s' r))]
                   | None \<Rightarrow>
                       currentTool s' = None \<and> \<not> isActive s' \<and> \<not> listening s'
                       \<and> (\<forall>cur. currentTool s = Some cur \<longrightarrow> \<not> t_isActive (heap s' cur))
                       \<and> emitted s' = emitted s @ [DrawingToolDeactivated])))"
proof (intro conjI impI)
  assume a: "tb_currentTool tb = Some toolId"
  from setActiveTool_None [OF assms, of s] obtain s' where
    r: "setActiveTool env None s = (Returned, s')"
    and p: "currentTool s' = None" "\<not> isActive s'" "\<not> listening s'"
      "\<forall>cur. currentTool s = Some cur \<longrightarrow> \<not> t_isActive (heap s' cur)"
      "emitted s' = emitted s @ [DrawingToolDeactivated]"
    by blast
  show "case selectTool env toolId (tb, s) of
             (tb', s') \<Rightarrow>
               tb_currentTool tb' = None \<and> activeButton tb' = None
               \<and> currentTool s' = None \<and> \<not> isActive s' \<and> \<not> listening s'
               \<and> (\<forall>cur. currentTool s = Some cur \<longrightarrow> \<not> t_isActive (heap s' cur))
               \<and> emitted s' = emitted s @ [DrawingToolDeactivated]"
    using a r p
    by (simp add: selectTool_def on_tool_deselected_def deselectAllTools_def updateActiveTool_def)
next
  assume a: "tb_currentTool tb \<noteq> Some toolId"
  obtain t s1 where g: "getToolInstance env toolId s = (t, s1)"
    by (cases "getToolInstance env toolId s")
  note fr = getToolInstance_frame [OF g]
  show "case selectTool env toolId (tb, s) of
             (tb', s') \<Rightarrow>
               tb_currentTool tb' = Some toolId
               \<and> (case fst (getToolInstance env toolId s) of
                     Some r \<Rightarrow>
                       currentTool s' = Some r \<and> isActive s' \<and> listening s'
                       \<and> t_isActive (heap s' r)
                       \<and> (\<forall>cur. currentTool s = Some cur \<and> cur \<noteq> r \<longrightarrow>
                              \<not> t_isActive (heap s' cur))
                       \<and> emitted s' = emitted s @ [DrawingToolActivated (getName (heap s' r))]
                   | None \<Rightarrow>
                       currentTool s' = None \<and> \<not> isActive s' \<and> \<not> listening s'
                       \<and> (\<forall>cur. currentTool s = Some cur \<longrightarrow> \<not> t_isActive (heap s' cur))
                       \<and> emitted s' = emitted s @ [DrawingToolDeactivated])"
  proof (cases t)
    case None
    from setActiveTool_None [OF assms, of s1] obtain s' where
      r: "setActiveTool env None s1 = (Returned, s')"
      and p: "currentTool s' = None" "\<not> isActive s'" "\<not> listening s'"
        "\<forall>cur. currentTool s1 = Some cur \<longrightarrow> \<not> t_isActive (heap s' cur)"
        "emitted s' = emitted s1 @ [DrawingToolDeactivated]"
      by blast
    show ?thesis
      using a g None r p fr
      by (simp add: selectTool_def on_tool_selected_def updateActiveTool_def)
  next
    case (Some r0)
    from setActiveTool_Some [OF assms, of r0 s1] obtain s' where
      r: "setActiveTool env (Some r0) s1 = (Returned, s')"
      and p: "currentTool s' = Some r0" "isActive s'" "listening s'" "t_isActive (heap s' r0)"
        "\<forall>cur. currentTool s1 = Some cur \<and> cur \<noteq> r0 \<longrightarrow> \<not> t_isActive (heap s' cur)"
        "emitted s' = emitted s1 @ [DrawingToolActivated (getName (heap s' r0))]"
      by blast
    show ?thesis
      using a g Some r p fr
      by (simp add: selectTool_def on_tool_selected_def updateActiveTool_def)
  qed
qed

lemma demo_resolves:
  "getToolInstance demo_env ''trendline'' demo_idle = (Some 0, demo_idle)"
  "getToolInstance demo_env ''trendline'' demo_armed = (Some 0, demo_armed)"
  "getToolInstance demo_env ''horizontal'' demo_armed = (None, demo_armed)"
  by (simp_all add: getToolInstance_def demo_armed_eq demo_idle_def new_DrawingManager_def
      demo_env_def toLowerCase_def)

theorem toolbar_reselect_toggles_off_witness:
  "currentTool (snd (selectTool demo_env ''trendline''
       (\<lparr>tb_currentTool = Some ''trendline'', activeButton = Some ''trendline''\<rparr>, demo_armed))) = None
   \<and> emitted (snd (selectTool demo_env ''trendline''
       (\<lparr>tb_currentTool = Some ''trendline'', activeButton = Some ''trendline''\<rparr>, demo_armed)))
       = [DrawingToolActivated ''TrendLine'', DrawingToolDeactivated]
   \<and> \<not> t_isActive (heap (snd (selectTool demo_env ''trendline''
       (\<lparr>tb_currentTool = Some ''trendline'', activeButton = Some ''trendline''\<rparr>, demo_armed))) 0)
   \<and> currentTool (snd (selectTool demo_env ''trendline''
       (\<lparr>tb_currentTool = None, activeButton = None\<rparr>, demo_idle))) = Some 0
   \<and> t_isActive (heap (snd (selectTool demo_env ''trendline''
       (\<lparr>tb_currentTool = None, activeButton = None\<rparr>, demo_idle))) 0)"
proof -
  have n: "\<not> throws demo_env NavRestore" by (simp add: demo_env_def)
  define tb1 where "tb1 = \<lparr>tb_currentTool = Some ''trendline'', activeButton = Some ''trendline''\<rparr>"
  define tb0 where "tb0 = \<lparr>tb_currentTool = (None :: string option), activeButton = (None :: string option)\<rparr>"
  note t1 = toolbar_reselect_toggles_off [OF n, of tb1 "''trendline''" demo_armed]
  note t0 = toolbar_reselect_toggles_off [OF n, of tb0 "''trendline''" demo_idle]
  obtain a b where r1: "selectTool demo_env ''trendline'' (tb1, demo_armed) = (a, b)"
    by (cases "selectTool demo_env ''trendline'' (tb1, demo_armed)")
  obtain c d where r0: "selectTool demo_env ''trendline'' (tb0, demo_idle) = (c, d)"
    by (cases "selectTool demo_env ''trendline'' (tb0, demo_idle)")
  have c1: "tb_currentTool tb1 = Some ''trendline''" "tb_currentTool tb0 \<noteq> Some ''trendline''"
    "currentTool demo_armed = Some 0" "emitted demo_armed = [DrawingToolActivated ''TrendLine'']"
    by (simp_all add: tb1_def tb0_def demo_armed_eq)
  from t1 r1 c1 have p1: "currentTool b = None"
    "emitted b = [DrawingToolActivated ''TrendLine'', DrawingToolDeactivated]"
    "\<not> t_isActive (heap b 0)" by simp_all
  from t0 r0 c1 demo_resolves(1) have p0: "currentTool d = Some 0" "t_isActive (heap d 0)"
    by simp_all
  show ?thesis
    using p1 p0 r1 r0 unfolding tb1_def tb0_def by simp
qed

text \<open>
  The claim as stated fails in its second half: with the TrendLine tool active, selecting
  the toolbar's \<open>horizontal\<close> tool does not activate a new tool. The registry holds only
  \<open>trendline\<close>, so the manager ends Idle and publishes the deactivation signal.
\<close>

theorem select_unregistered_tool_counterexample:
  "currentTool (snd (selectTool demo_env ''horizontal''
       (\<lparr>tb_currentTool = Some ''trendline'', activeButton = Some ''trendline''\<rparr>, demo_armed))) = None
   \<and> \<not> isActive (snd (selectTool demo_env ''horizontal''
       (\<lparr>tb_currentTool = Some ''trendline'', activeButton = Some ''trendline''\<rparr>, demo_armed)))
   \<and> emitted (snd (selectTool demo_env ''horizontal''
       (\<lparr>tb_currentTool = Some ''trendline'', activeButton = Some ''trendline''\<rparr>, demo_armed)))
       = [DrawingToolActivated ''TrendLine'', DrawingToolDeactivated]
   \<and> fst (selectTool demo_env ''horizontal''
       (\<lparr>tb_currentTool = Some ''trendline'', activeButton = Some ''trendline''\<rparr>, demo_armed))
       = \<lparr>tb_currentTool = Some ''horizontal'', activeButton = Some ''horizontal''\<rparr>"
  by (simp add: selectTool_def on_tool_selected_def demo_resolves(3) updateActiveTool_def
      toolbar_tool_ids_def)
     (simp add: demo_armed_eq setActiveTool_def restoreNavigation_def and_then_def
      set_tool_active_def publish_def Let_def demo_idle_def new_DrawingManager_def)

section \<open>Properties of export\<close>









section \<open>Properties of the tools: Fibonacci levels and hit testing\<close>

subsection \<open>The level table\<close>

text \<open>The ratios of the source as doubles: each is a 53-bit mantissa over a power of two.\<close>

lemma double_of_236: "double_of 0.236 = (1062849512059437 / 2 ^ 52)"
  by (rule double_of_eq, rule to_double_round [where q = 55 and n = 8502796096475496])
      (simp_all add: round_half_even_def Let_def)

lemma double_of_382: "double_of 0.382 = (3440750115311059 / 2 ^ 53)"
  by (rule double_of_eq, rule to_double_round [where q = 54 and n = 6881500230622118])
      (simp_all add: round_half_even_def Let_def)

lemma double_of_5: "double_of 0.5 = (1 / 2 ^ 1)"
  by (rule double_of_eq, rule to_double_round [where q = 53 and n = 4503599627370496])
      (simp_all add: round_half_even_def Let_def)

lemma double_of_618: "double_of 0.618 = (5566449139429933 / 2 ^ 53)"
  by (rule double_of_eq, rule to_double_round [where q = 53 and n = 5566449139429933])
      (simp_all add: round_half_even_def Let_def)

lemma double_of_786: "double_of 0.786 = (1769914653556605 / 2 ^ 51)"
  by (rule double_of_eq, rule to_double_round [where q = 53 and n = 7079658614226420])
      (simp_all add: round_half_even_def Let_def)

lemma fib_tool_levels:
  "levels_of (t_options (new_tool FibRetracement Map.empty) ''levels'')
     = Some [0, double_of 0.236, double_of 0.382, double_of 0.5, double_of 0.618,
             double_of 0.786, 1]"
  by (simp add: new_tool_def fib_defaults_def base_defaults_def fib_default_levels_def map_add_def)

lemma snap_200: "snap_price (Num (Fin 200)) = Num (Fin 200)"
  by (simp add: snap_price_def)

text \<open>The prices of the levels between 100 and 200, operation by operation.\<close>

lemma level_price_236:
  "js_add (Fin 100) (js_mul (Fin 100) (Fin (double_of 0.236))) = Fin (4348788390179635 / 2 ^ 45)"
proof -
  have m: "js_mul (Fin 100) (Fin (double_of 0.236)) = Fin (6642809450371481 / 2 ^ 48)"
    unfolding double_of_236 js_mul_Fin
    by (rule to_double_round [where q = 48 and n = 6642809450371481])
      (simp_all add: round_half_even_def Let_def)
  show ?thesis
    unfolding m js_add_Fin
    by (rule to_double_round [where q = 46 and n = 8697576780359270])
      (simp_all add: round_half_even_def Let_def)
qed

lemma level_price_382:
  "js_add (Fin 100) (js_mul (Fin 100) (Fin (double_of 0.382))) = Fin (2431240111338291 / 2 ^ 44)"
proof -
  have m: "js_mul (Fin 100) (Fin (double_of 0.382)) = Fin (2688086027586765 / 2 ^ 46)"
    unfolding double_of_382 js_mul_Fin
    by (rule to_double_round [where q = 47 and n = 5376172055173530])
      (simp_all add: round_half_even_def Let_def)
  show ?thesis
    unfolding m js_add_Fin
    by (rule to_double_round [where q = 45 and n = 4862480222676582])
      (simp_all add: round_half_even_def Let_def)
qed

lemma level_price_5:
  "js_add (Fin 100) (js_mul (Fin 100) (Fin (double_of 0.5))) = Fin 150"
proof -
  have m: "js_mul (Fin 100) (Fin (double_of 0.5)) = Fin 50"
    unfolding double_of_5 js_mul_Fin
    by (rule to_double_round [where q = 47 and n = 7036874417766400])
      (simp_all add: round_half_even_def Let_def)
  show ?thesis
    unfolding m js_add_Fin
    by (rule to_double_round [where q = 45 and n = 5277655813324800])
      (simp_all add: round_half_even_def Let_def)
qed

lemma level_price_618:
  "js_add (Fin 100) (js_mul (Fin 100) (Fin (double_of 0.618))) = Fin (2846415701986509 / 2 ^ 44)"
proof -
  have m: "js_mul (Fin 100) (Fin (double_of 0.618)) = Fin (4348788390179635 / 2 ^ 46)"
    unfolding double_of_618 js_mul_Fin
    by (rule to_double_round [where q = 47 and n = 8697576780359270])
      (simp_all add: round_half_even_def Let_def)
  show ?thesis
    unfolding m js_add_Fin
    by (rule to_double_round [where q = 45 and n = 5692831403973018])
      (simp_all add: round_half_even_def Let_def)
qed

lemma level_price_786:
  "js_add (Fin 100) (js_mul (Fin 100) (Fin (double_of 0.786))) = Fin (1570982213766349 / 2 ^ 43)"
proof -
  have m: "js_mul (Fin 100) (Fin (double_of 0.786)) = Fin (5530983292364391 / 2 ^ 46)"
    unfolding double_of_786 js_mul_Fin
    by (rule to_double_round [where q = 46 and n = 5530983292364391])
      (simp_all add: round_half_even_def Let_def)
  show ?thesis
    unfolding m js_add_Fin
    by (rule to_double_round [where q = 45 and n = 6283928855065396])
      (simp_all add: round_half_even_def Let_def)
qed

lemma double_of_123_6: "double_of 123.6 = (4348788390179635 / 2 ^ 45)"
  by (rule double_of_eq, rule to_double_round [where q = 46 and n = 8697576780359270])
      (simp_all add: round_half_even_def Let_def)

lemma double_of_138_2: "double_of 138.2 = (2431240111338291 / 2 ^ 44)"
  by (rule double_of_eq, rule to_double_round [where q = 45 and n = 4862480222676582])
      (simp_all add: round_half_even_def Let_def)

lemma double_of_161_8: "double_of 161.8 = (2846415701986509 / 2 ^ 44)"
  by (rule double_of_eq, rule to_double_round [where q = 45 and n = 5692831403973018])
      (simp_all add: round_half_even_def Let_def)

lemma double_of_178_6: "double_of 178.6 = (6283928855065395 / 2 ^ 45)"
  by (rule double_of_eq, rule to_double_round [where q = 45 and n = 6283928855065395])
      (simp_all add: round_half_even_def Let_def)

lemma calculateFibLevels_prices:
  "map (\<lambda>f. (level f, level_price f))
     (calculateFibLevels this
        (Some \<lparr>time = t1, price = Num (Fin s), screenX = x1, screenY = y1\<rparr>)
        (Some \<lparr>time = t2, price = Num (Fin e), screenX = x2, screenY = y2\<rparr>) opts)
   = map (\<lambda>l. (l, js_add (Fin s) (js_mul (js_sub (Fin e) (Fin s)) (Fin l))))
       (case levels_of (opts ''levels'') of
          Some ls \<Rightarrow> ls
        | None \<Rightarrow> (case levels_of (t_options this ''levels'') of Some ls \<Rightarrow> ls | None \<Rightarrow> []))"
  by (simp add: calculateFibLevels_def Let_def comp_def
      del: js_add.simps js_mul.simps)

lemma fib_table_100_200:
  "map (\<lambda>f. (level f, level_price f))
     (calculateFibLevels (new_tool FibRetracement Map.empty)
        (Some \<lparr>time = t1, price = Num (Fin 100), screenX = x1, screenY = y1\<rparr>)
        (Some \<lparr>time = t2, price = Num (Fin 200), screenX = x2, screenY = y2\<rparr>)
        (t_options (new_tool FibRetracement Map.empty)))
   = [(0, Fin 100), (double_of 0.236, Fin (4348788390179635 / 2 ^ 45)),
        (double_of 0.382, Fin (2431240111338291 / 2 ^ 44)), (double_of 0.5, Fin 150),
        (double_of 0.618, Fin (2846415701986509 / 2 ^ 44)),
        (double_of 0.786, Fin (1570982213766349 / 2 ^ 43)), (1, Fin 200)]"
proof -
  have s: "js_sub (Fin 200) (Fin 100) = Fin 100" by (simp add: js_sub_Fin)
  have z: "js_add (Fin 100) (js_mul (Fin 100) (Fin 0)) = Fin 100" by simp
  have o: "js_add (Fin 100) (js_mul (Fin 100) (Fin 1)) = Fin 200" by simp
  show ?thesis
    unfolding calculateFibLevels_prices
    by (simp only: fib_tool_levels option.case list.map s z o level_price_236 level_price_382
        level_price_5 level_price_618 level_price_786)
qed

lemma fib_gesture_levels:
  "map_option (map (\<lambda>f. (level f, level_price f)))
     (levels (snd (fib_finalizeDrawingData (new_tool FibRetracement Map.empty)
        (fib_createDrawing (new_tool FibRetracement Map.empty)
           \<lparr>time = Num (Fin 1), price = Num (Fin 100), screenX = Num (Fin 10), screenY = Num (Fin 20)\<rparr>
           Map.empty now)
        \<lparr>time = Num (Fin 2), price = Num (Fin 200), screenX = Num (Fin 30), screenY = Num (Fin 5)\<rparr>)))
   = Some [(0, Fin 100), (double_of 0.236, Fin (4348788390179635 / 2 ^ 45)),
        (double_of 0.382, Fin (2431240111338291 / 2 ^ 44)), (double_of 0.5, Fin 150),
        (double_of 0.618, Fin (2846415701986509 / 2 ^ 44)),
        (double_of 0.786, Fin (1570982213766349 / 2 ^ 43)), (1, Fin 200)]"
proof -
  have o: "opt_truthy (t_options (new_tool FibRetracement Map.empty) ''snapToPrice'')"
    by (simp add: new_tool_def fib_defaults_def base_defaults_def map_add_def)
  have "levels (snd (fib_finalizeDrawingData (new_tool FibRetracement Map.empty)
        (fib_createDrawing (new_tool FibRetracement Map.empty)
           \<lparr>time = Num (Fin 1), price = Num (Fin 100), screenX = Num (Fin 10), screenY = Num (Fin 20)\<rparr>
           Map.empty now)
        \<lparr>time = Num (Fin 2), price = Num (Fin 200), screenX = Num (Fin 30), screenY = Num (Fin 5)\<rparr>))
     = Some (calculateFibLevels (new_tool FibRetracement Map.empty)
        (Some \<lparr>time = Num (Fin 1), price = Num (Fin 100), screenX = Undefined, screenY = Undefined\<rparr>)
        (Some \<lparr>time = Num (Fin 2), price = Num (Fin 200), screenX = Undefined, screenY = Undefined\<rparr>)
        (t_options (new_tool FibRetracement Map.empty)))"
    by (simp add: fib_finalizeDrawingData_def fib_updateDrawingData_def fib_createDrawing_def
        blank_drawing_def Let_def o snap_200)
  then show ?thesis
    by (simp only: option.map fib_table_100_200)
qed

text \<open>
  The price of a level against the exact value of the formula, for prices of magnitude
  at most \<open>2^20\<close> and a ratio between 0 and 1: three roundings, at most \<open>2^-28\<close> in all.
\<close>

lemma level_price_error:
  assumes s: "\<bar>s\<bar> \<le> 2 ^ 20" and e: "\<bar>e\<bar> \<le> 2 ^ 20" and l: "0 \<le> l" "l \<le> 1"
  shows "\<exists>p. js_add (Fin s) (js_mul (js_sub (Fin e) (Fin s)) (Fin l)) = Fin p
           \<and> \<bar>p - (s + (e - s) * l)\<bar> \<le> 1 / 2 ^ 28"
proof -
  have n: "(1 :: real) \<le> 2 ^ 21" "(2 :: real) ^ 21 \<le> 2 ^ 100" "(1 :: real) \<le> 2 ^ 22"
    "(2 :: real) ^ 22 \<le> 2 ^ 100" "(1 :: real) \<le> 2 ^ 23" "(2 :: real) ^ 23 \<le> 2 ^ 100"
    "(2 :: real) ^ 20 + 2 ^ 20 \<le> 2 ^ 21" "(2 :: real) ^ 21 / 2 ^ 52 \<le> 1"
    "(2 :: real) ^ 21 + 1 \<le> 2 ^ 22" "(2 :: real) ^ 22 / 2 ^ 52 \<le> 1"
    "(2 :: real) ^ 20 + (2 ^ 22 + 1) \<le> 2 ^ 23"
    "(2 :: real) ^ 23 / 2 ^ 52 + 2 ^ 22 / 2 ^ 52 + 2 ^ 21 / 2 ^ 52 \<le> 1 / 2 ^ 28"
    by simp_all
  have "\<bar>e - s\<bar> \<le> 2 ^ 21" using s e n by linarith
  from to_double_error_abs [OF this n(1) n(2)] obtain d where
    d: "to_double (e - s) = Fin d" "\<bar>d - (e - s)\<bar> \<le> 2 ^ 21 / 2 ^ 52"
    by blast
  have db: "\<bar>d\<bar> \<le> 2 ^ 22" using d(2) \<open>\<bar>e - s\<bar> \<le> 2 ^ 21\<close> n by linarith
  have dl: "\<bar>d * l\<bar> \<le> 2 ^ 22"
  proof -
    have "\<bar>d\<bar> * \<bar>l\<bar> \<le> 2 ^ 22 * 1" using db l by (intro mult_mono) simp_all
    then show ?thesis by (simp add: abs_mult)
  qed
  from to_double_error_abs [OF dl n(3) n(4)] obtain m where
    m: "to_double (d * l) = Fin m" "\<bar>m - d * l\<bar> \<le> 2 ^ 22 / 2 ^ 52"
    by blast
  have "\<bar>s + m\<bar> \<le> 2 ^ 23" using s m(2) dl n by linarith
  from to_double_error_abs [OF this n(5) n(6)] obtain p where
    p: "to_double (s + m) = Fin p" "\<bar>p - (s + m)\<bar> \<le> 2 ^ 23 / 2 ^ 52"
    by blast
  have dd: "\<bar>(d - (e - s)) * l\<bar> \<le> 2 ^ 21 / 2 ^ 52"
  proof -
    have "\<bar>d - (e - s)\<bar> * \<bar>l\<bar> \<le> 2 ^ 21 / 2 ^ 52 * 1" using d(2) l by (intro mult_mono) simp_all
    then show ?thesis by (simp add: abs_mult)
  qed
  have "p - (s + (e - s) * l) = (p - (s + m)) + (m - d * l) + (d - (e - s)) * l"
    by (simp add: algebra_simps)
  then have "\<bar>p - (s + (e - s) * l)\<bar> \<le> \<bar>p - (s + m)\<bar> + \<bar>m - d * l\<bar> + \<bar>(d - (e - s)) * l\<bar>"
    by linarith
  also have "\<dots> \<le> 2 ^ 23 / 2 ^ 52 + 2 ^ 22 / 2 ^ 52 + 2 ^ 21 / 2 ^ 52"
    using p(2) m(2) dd by linarith
  also have "\<dots> \<le> 1 / 2 ^ 28" by (rule n(12))
  finally have "\<bar>p - (s + (e - s) * l)\<bar> \<le> 1 / 2 ^ 28" .
  moreover have "js_add (Fin s) (js_mul (js_sub (Fin e) (Fin s)) (Fin l)) = Fin p"
    using d(1) m(1) p(1) by (simp add: js_sub_Fin)
  ultimately show ?thesis by blast
qed

text \<open>
  C2. The price of a level is \<open>startPoint.price + priceDiff * level\<close> as the code computes
  it, in double arithmetic: for finite start and end prices \<open>s\<close> and \<open>e\<close>, every
  configured ratio \<open>l\<close> gets the price \<open>s + (e - s) * l\<close> with each of the three
  operations rounded to the nearest double; for prices of magnitude at most \<open>2^20\<close> and
  a ratio between 0 and 1 the result is within \<open>2^-28\<close> of the exact value of the
  formula. The ratios configured by the FibRetracement tool's constructor are the
  doubles written 0, 0.236, 0.382, 0.5, 0.618, 0.786 and 1. From 100 to 200 the prices
  are exactly 100 at ratio 0, 150 at ratio 0.5 and 200 at ratio 1, and the other four
  are the doubles printed 123.6, 138.2, 161.8 and 178.60000000000002 (the last is the
  double next above the one nearest to 178.6); the table of a drawing created at price
  100 and finalized at price 200 is the same.
\<close>

theorem fib_level_prices:
  "map (\<lambda>f. (level f, level_price f))
     (calculateFibLevels this
        (Some \<lparr>time = t1, price = Num (Fin s), screenX = x1, screenY = y1\<rparr>)
        (Some \<lparr>time = t2, price = Num (Fin e), screenX = x2, screenY = y2\<rparr>) opts)
   = map (\<lambda>l. (l, js_add (Fin s) (js_mul (js_sub (Fin e) (Fin s)) (Fin l))))
       (case levels_of (opts ''levels'') of
          Some ls \<Rightarrow> ls
        | None \<Rightarrow> (case levels_of (t_options this ''levels'') of Some ls \<Rightarrow> ls | None \<Rightarrow> []))
   \<and> (\<bar>s\<bar> \<le> 2 ^ 20 \<and> \<bar>e\<bar> \<le> 2 ^ 20 \<and> 0 \<le> l \<and> l \<le> 1 \<longrightarrow>
        (\<exists>p. js_add (Fin s) (js_mul (js_sub (Fin e) (Fin s)) (Fin l)) = Fin p
           \<and> \<bar>p - (s + (e - s) * l)\<bar> \<le> 1 / 2 ^ 28))
   \<and> levels_of (t_options (new_tool FibRetracement Map.empty) ''levels'')
       = Some [0, double_of 0.236, double_of 0.382, double_of 0.5, double_of 0.618,
               double_of 0.786, 1]
   \<and> map (\<lambda>f. (level f, level_price f))
       (calculateFibLevels (new_tool FibRetracement Map.empty)
          (Some \<lparr>time = t1, price = Num (Fin 100), screenX = x1, screenY = y1\<rparr>)
          (Some \<lparr>time = t2, price = Num (Fin 200), screenX = x2, screenY = y2\<rparr>)
          (t_options (new_tool FibRetracement Map.empty)))
     = [(0, Fin 100), (double_of 0.236, Fin (4348788390179635 / 2 ^ 45)),
        (double_of 0.382, Fin (2431240111338291 / 2 ^ 44)), (double_of 0.5, Fin 150),
        (double_of 0.618, Fin (2846415701986509 / 2 ^ 44)),
        (double_of 0.786, Fin (1570982213766349 / 2 ^ 43)), (1, Fin 200)]
   \<and> [double_of 123.6, double_of 138.2, double_of 161.8, double_of 178.6]
     = [4348788390179635 / 2 ^ 45, 2431240111338291 / 2 ^ 44, 2846415701986509 / 2 ^ 44,
        6283928855065395 / 2 ^ 45]
   \<and> map_option (map (\<lambda>f. (level f, level_price f)))
       (levels (snd (fib_finalizeDrawingData (new_tool FibRetracement Map.empty)
          (fib_createDrawing (new_tool FibRetracement Map.empty)
             \<lparr>time = Num (Fin 1), price = Num (Fin 100), screenX = Num (Fin 10), screenY = Num (Fin 20)\<rparr>
             Map.empty now)
          \<lparr>time = Num (Fin 2), price = Num (Fin 200), screenX = Num (Fin 30), screenY = Num (Fin 5)\<rparr>)))
     = Some [(0, Fin 100), (double_of 0.236, Fin (4348788390179635 / 2 ^ 45)),
        (double_of 0.382, Fin (2431240111338291 / 2 ^ 44)), (double_of 0.5, Fin 150),
        (double_of 0.618, Fin (2846415701986509 / 2 ^ 44)),
        (double_of 0.786, Fin (1570982213766349 / 2 ^ 43)), (1, Fin 200)]"
proof (intro conjI)
  show "[double_of 123.6, double_of 138.2, double_of 161.8, double_of 178.6]
     = [4348788390179635 / 2 ^ 45, 2431240111338291 / 2 ^ 44, 2846415701986509 / 2 ^ 44,
        6283928855065395 / 2 ^ 45]"
    by (simp only: double_of_123_6 double_of_138_2 double_of_161_8 double_of_178_6)
  show "\<bar>s\<bar> \<le> 2 ^ 20 \<and> \<bar>e\<bar> \<le> 2 ^ 20 \<and> 0 \<le> l \<and> l \<le> 1 \<longrightarrow>
        (\<exists>p. js_add (Fin s) (js_mul (js_sub (Fin e) (Fin s)) (Fin l)) = Fin p
           \<and> \<bar>p - (s + (e - s) * l)\<bar> \<le> 1 / 2 ^ 28)"
    using level_price_error [of s e l] by blast
qed (rule calculateFibLevels_prices fib_tool_levels fib_table_100_200 fib_gesture_levels)+

text \<open>
  Between 100 and 200 at the ratio written 0.786: the price the code computes,
  178.60000000000002, is within \<open>2^-28\<close> of the exact value of the formula at that ratio.
\<close>

theorem fib_level_prices_witness:
  "js_add (Fin 100) (js_mul (js_sub (Fin 200) (Fin 100)) (Fin (double_of 0.786)))
     = Fin (1570982213766349 / 2 ^ 43)
   \<and> \<bar>1570982213766349 / 2 ^ 43 - (100 + (200 - 100) * double_of 0.786)\<bar> \<le> 1 / 2 ^ 28"
proof -
  have b: "\<bar>100 :: real\<bar> \<le> 2 ^ 20 \<and> \<bar>200 :: real\<bar> \<le> 2 ^ 20 \<and> 0 \<le> double_of 0.786
      \<and> double_of 0.786 \<le> 1"
    unfolding double_of_786 by simp
  from fib_level_prices [where s = 100 and e = 200 and l = "double_of 0.786",
      THEN conjunct2, THEN conjunct1, THEN mp, OF b]
  obtain p where p: "js_add (Fin 100) (js_mul (js_sub (Fin 200) (Fin 100)) (Fin (double_of 0.786)))
        = Fin p"
    "\<bar>p - (100 + (200 - 100) * double_of 0.786)\<bar> \<le> 1 / 2 ^ 28"
    by blast
  have s: "js_sub (Fin 200) (Fin 100) = Fin 100" by (simp add: js_sub_Fin)
  have "p = 1570982213766349 / 2 ^ 43"
    using p(1) unfolding s level_price_786 by simp
  with p show ?thesis by simp
qed

subsection \<open>Hit testing\<close>















subsection \<open>The computed distance against the exact one\<close>

















section \<open>The percentage label of a trend line\<close>

declare js_sub_Fin [simp]

lemma tl_options_snap: "opt_truthy ((t_options (new_tool TrendLine Map.empty) ++ Map.empty) ''snapToPrice'')"
  by (simp add: new_tool_def trendline_defaults_def base_defaults_def map_add_def)

lemma sqrt_10000: "sqrt 10000 = 100"
  using real_sqrt_abs [of 100] by simp

lemma zero_start_line_fields:
  "startPoint zero_start_line
     = Some \<lparr>time = Num (Fin 1), price = Num (Fin 0), screenX = Num (Fin 0), screenY = Num (Fin 0)\<rparr>"
  "endPoint zero_start_line
     = Some \<lparr>time = Num (Fin 2), price = Num (Fin 5), screenX = Num (Fin 100), screenY = Num (Fin 0)\<rparr>"
  "lineLength zero_start_line = Num (Fin 100)"
  "priceDifference zero_start_line = Num (Fin 5)"
  using tl_options_snap
  by (simp_all add: zero_start_line_def tl_finalizeDrawingData_def tl_updateDrawingData_def
      tl_createDrawing_def blank_drawing_def Let_def snap_price_def sqrt_10000)

lemma rising_line_fields:
  "startPoint rising_line
     = Some \<lparr>time = Num (Fin 1), price = Num (Fin 100), screenX = Num (Fin 0), screenY = Num (Fin 0)\<rparr>"
  "endPoint rising_line
     = Some \<lparr>time = Num (Fin 2), price = Num (Fin 110), screenX = Num (Fin 100), screenY = Num (Fin 0)\<rparr>"
  "lineLength rising_line = Num (Fin 100)"
  "priceDifference rising_line = Num (Fin 10)"
  using tl_options_snap
  by (simp_all add: rising_line_def tl_finalizeDrawingData_def tl_updateDrawingData_def
      tl_createDrawing_def blank_drawing_def Let_def snap_price_def sqrt_10000)

text \<open>
  C8 (as amended). Both label routines divide the price difference by the start anchor's
  price and print the quotient times 100 with two decimals. The only guard is on the
  price difference: no label is drawn when it is falsy (zero, NaN or unset). The start
  price is not checked: when it is zero and the price difference is not, the division
  is carried out, gives an infinity (JavaScript does not throw on it), and the label is
  drawn with that percentage.
\<close>

theorem label_divides_by_start_price:
  assumes "startPoint d = Some sp" and "endPoint d = Some ep"
  shows "(tl_drawLabel d = (Returned, None) \<longleftrightarrow> \<not> truthy (priceDifference d))
     \<and> (prim_drawLabel d startX startY endX endY = None \<longleftrightarrow> \<not> truthy (priceDifference d))
     \<and> (truthy (priceDifference d) \<longrightarrow>
          (\<exists>l. tl_drawLabel d = (Returned, Some l)
             \<and> snd (percentDiffText l)
                 = toFixed 2 (js_mul (js_div (to_number (priceDifference d)) (to_number (price sp)))
                                (Fin 100)))
          \<and> (\<exists>l. prim_drawLabel d startX startY endX endY = Some l
             \<and> snd (percentDiffText l)
                 = toFixed 2 (js_mul (js_div (to_number (priceDifference d)) (to_number (price sp)))
                                (Fin 100))))
     \<and> (priceDifference d = Num (Fin pd) \<and> pd \<noteq> 0 \<and> price sp = Num (Fin 0) \<longrightarrow>
          (\<exists>l. tl_drawLabel d = (Returned, Some l)
             \<and> snd (percentDiffText l) = (if 0 < pd then PInf else NInf))
          \<and> (\<exists>l. prim_drawLabel d startX startY endX endY = Some l
             \<and> snd (percentDiffText l) = (if 0 < pd then PInf else NInf)))"
  using assms
  by (auto simp add: tl_drawLabel_def prim_drawLabel_def label_text_def Let_def)

theorem label_divides_by_start_price_witness:
  "map_option percentDiffText (snd (tl_drawLabel rising_line)) = Some (True, Fin 10)
   \<and> map_option percentDiffText (prim_drawLabel rising_line (Fin 0) (Fin 0) (Fin 100) (Fin 0))
       = Some (True, Fin 10)"
proof -
  note t = label_divides_by_start_price [OF rising_line_fields(1) rising_line_fields(2),
      of "Fin 0" "Fin 0" "Fin 100" "Fin 0" 10]
  have tr: "truthy (priceDifference rising_line)" by (simp add: rising_line_fields)
  have nz: "(100 :: real) \<noteq> 0" by simp
  have q1: "js_div (Fin 10) (Fin 100) = Fin (3602879701896397 / 2 ^ 55)"
    unfolding js_div_Fin [OF nz]
    by (rule to_double_round [where q = 56 and n = 7205759403792794])
      (simp_all add: round_half_even_def Let_def)
  have q2: "js_mul (Fin (3602879701896397 / 2 ^ 55)) (Fin 100) = Fin 10"
    unfolding js_mul_Fin
    by (rule to_double_round [where q = 49 and n = 5629499534213120])
      (simp_all add: round_half_even_def Let_def)
  have q3: "toFixed 2 (Fin 10) = Fin 10" by simp
  have pc: "toFixed 2 (js_mul (js_div (to_number (priceDifference rising_line))
      (to_number (price \<lparr>time = Num (Fin 1), price = Num (Fin 100), screenX = Num (Fin 0),
                          screenY = Num (Fin 0)\<rparr>))) (Fin 100)) = Fin 10"
    by (simp only: rising_line_fields to_number.simps point.simps q1 q2 q3)
  from t tr obtain l1 l2 where
    l: "tl_drawLabel rising_line = (Returned, Some l1)" "snd (percentDiffText l1) = Fin 10"
       "prim_drawLabel rising_line (Fin 0) (Fin 0) (Fin 100) (Fin 0) = Some l2"
       "snd (percentDiffText l2) = Fin 10"
    unfolding pc by auto
  have "fst (percentDiffText l1) = js_le (Fin 0) (snd (percentDiffText l1))"
    "fst (percentDiffText l2) = js_le (Fin 0) (snd (percentDiffText l2))"
    using l(1,3)
    by (auto simp add: tl_drawLabel_def prim_drawLabel_def label_text_def Let_def
        split: if_splits option.splits)
  then have s1: "fst (percentDiffText l1) = True" "fst (percentDiffText l2) = True"
    unfolding l(2,4) by simp_all
  show ?thesis
    using l s1 by (simp add: prod_eq_iff)
qed

text \<open>
  The claim as stated fails: for a line from price 0 to price 5 that is long enough to
  be labelled, both routines draw the label, with the percentage the unguarded division
  gives, plus infinity.
\<close>

theorem zero_start_price_label_counterexample:
  "map_option percentDiffText (snd (tl_draw_label zero_start_line)) = Some (True, PInf)
   \<and> fst (tl_draw_label zero_start_line) = Returned
   \<and> map_option percentDiffText (prim_draw_label zero_start_line (Fin 0) (Fin 0) (Fin 100) (Fin 0))
       = Some (True, PInf)"
  by (simp add: tl_draw_label_def tl_drawLabel_def prim_draw_label_def prim_drawLabel_def
      label_text_def Let_def zero_start_line_fields sqrt_10000)

section \<open>Serialization round trip of the tools\<close>

lemma map_add_absorb: "dom m \<subseteq> dom n \<Longrightarrow> m ++ n = n"
  by (rule ext) (auto simp add: map_add_def split: option.splits)

lemma calculateFibLevels_cong:
  assumes "opts ''levels'' = t_options this ''levels''"
    and "opts ''levelColors'' = t_options this ''levelColors''"
    and "price sp' = price sp" and "price ep' = price ep"
  shows "calculateFibLevels this (Some sp') (Some ep') (t_options this)
       = calculateFibLevels this (Some sp) (Some ep) opts"
  using assms by (simp add: calculateFibLevels_def level_color_def Let_def)

lemma tl_toJSON_Some:
  "tl_toJSON d = Some j \<Longrightarrow>
     \<exists>sp ep. startPoint d = Some sp \<and> endPoint d = Some ep
       \<and> j = \<lparr>j_type = dtype d,
              j_startPoint = \<lparr>time = time sp, price = price sp, screenX = Undefined, screenY = Undefined\<rparr>,
              j_endPoint = \<lparr>time = time ep, price = price ep, screenX = Undefined, screenY = Undefined\<rparr>,
              j_levels = None, j_options = d_options d, j_timestamp = timestamp d\<rparr>"
  by (auto simp add: tl_toJSON_def split: option.splits)

lemma fib_toJSON_Some:
  "fib_toJSON d = Some j \<Longrightarrow>
     \<exists>sp ep. startPoint d = Some sp \<and> endPoint d = Some ep
       \<and> j = \<lparr>j_type = dtype d,
              j_startPoint = \<lparr>time = time sp, price = price sp, screenX = Undefined, screenY = Undefined\<rparr>,
              j_endPoint = \<lparr>time = time ep, price = price ep, screenX = Undefined, screenY = Undefined\<rparr>,
              j_levels = d_options d ''levels'', j_options = d_options d, j_timestamp = timestamp d\<rparr>"
  by (auto simp add: fib_toJSON_def split: option.splits)

lemma tl_round_trip:
  assumes "tl_toJSON d = Some j"
  shows "map_option time (startPoint (tl_fromJSON this j m now)) = map_option time (startPoint d)"
    "map_option price (startPoint (tl_fromJSON this j m now)) = map_option price (startPoint d)"
    "map_option time (endPoint (tl_fromJSON this j m now)) = map_option time (endPoint d)"
    "map_option price (endPoint (tl_fromJSON this j m now)) = map_option price (endPoint d)"
    "d_options (tl_fromJSON this j m now) = t_options this ++ d_options d"
    "lineLength (tl_fromJSON this j m now) = Undefined"
    "angle (tl_fromJSON this j m now) = Undefined"
    "slope (tl_fromJSON this j m now) = Undefined"
    "priceDifference (tl_fromJSON this j m now) = Undefined"
    "timeDifference (tl_fromJSON this j m now) = Undefined"
  using tl_toJSON_Some [OF assms]
  by (auto simp add: tl_fromJSON_def blank_drawing_def Let_def)

lemma fib_round_trip:
  assumes "fib_toJSON d = Some j"
  shows "map_option time (startPoint (fib_fromJSON this j m now)) = map_option time (startPoint d)"
    "map_option price (startPoint (fib_fromJSON this j m now)) = map_option price (startPoint d)"
    "map_option time (endPoint (fib_fromJSON this j m now)) = map_option time (endPoint d)"
    "map_option price (endPoint (fib_fromJSON this j m now)) = map_option price (endPoint d)"
    "d_options (fib_fromJSON this j m now) = t_options this ++ d_options d"
    "priceRange (fib_fromJSON this j m now) = Undefined"
    "priceDifference (fib_fromJSON this j m now) = Undefined"
    "timeDifference (fib_fromJSON this j m now) = Undefined"
  using fib_toJSON_Some [OF assms]
  by (auto simp add: fib_fromJSON_def blank_drawing_def Let_def)

lemma fib_round_trip_levels:
  assumes "fib_toJSON d = Some j"
    and "d_options d ''levels'' = t_options this ''levels''"
    and "d_options d ''levelColors'' = t_options this ''levelColors''"
  shows "levels (fib_fromJSON this j m now)
       = Some (calculateFibLevels this (startPoint d) (endPoint d) (d_options d))"
proof -
  from fib_toJSON_Some [OF assms(1)] obtain sp ep where
    p: "startPoint d = Some sp" "endPoint d = Some ep"
    and j: "j = \<lparr>j_type = dtype d,
              j_startPoint = \<lparr>time = time sp, price = price sp, screenX = Undefined, screenY = Undefined\<rparr>,
              j_endPoint = \<lparr>time = time ep, price = price ep, screenX = Undefined, screenY = Undefined\<rparr>,
              j_levels = d_options d ''levels'', j_options = d_options d, j_timestamp = timestamp d\<rparr>"
    by blast
  show ?thesis
    unfolding p j
    by (simp add: fib_fromJSON_def Let_def
        calculateFibLevels_cong [OF assms(2) assms(3), where sp = sp and ep = ep])
qed

lemma tl_tool_dom: "dom (t_options (new_tool TrendLine Map.empty)) \<subseteq> dom (d_options rising_line)"
  by (simp add: rising_line_def tl_finalizeDrawingData_def tl_updateDrawingData_def
      tl_createDrawing_def blank_drawing_def Let_def split: option.splits)

lemma rising_line_json:
  "tl_toJSON rising_line
     = Some \<lparr>j_type = ''TrendLine'',
          j_startPoint = \<lparr>time = Num (Fin 1), price = Num (Fin 100), screenX = Undefined, screenY = Undefined\<rparr>,
          j_endPoint = \<lparr>time = Num (Fin 2), price = Num (Fin 110), screenX = Undefined, screenY = Undefined\<rparr>,
          j_levels = None, j_options = d_options rising_line, j_timestamp = 1700000000000\<rparr>"
  using tl_options_snap
  by (simp add: tl_toJSON_def rising_line_fields)
    (simp add: rising_line_def tl_finalizeDrawingData_def tl_updateDrawingData_def
      tl_createDrawing_def blank_drawing_def Let_def)

lemma fib_options_snap:
  "opt_truthy ((t_options (new_tool FibRetracement Map.empty) ++ Map.empty) ''snapToPrice'')"
  by (simp add: new_tool_def fib_defaults_def base_defaults_def map_add_def)

lemma retracement_fields:
  "startPoint retracement_100_200
     = Some \<lparr>time = Num (Fin 1), price = Num (Fin 100), screenX = Undefined, screenY = Undefined\<rparr>"
  "endPoint retracement_100_200
     = Some \<lparr>time = Num (Fin 2), price = Num (Fin 200), screenX = Undefined, screenY = Undefined\<rparr>"
  "d_options retracement_100_200 = t_options (new_tool FibRetracement Map.empty)"
  "dtype retracement_100_200 = ''FibRetracement''"
  "timestamp retracement_100_200 = 1700000000000"
  "priceRange retracement_100_200 = Num (Fin 100)"
  "levels retracement_100_200
     = Some (calculateFibLevels (new_tool FibRetracement Map.empty)
         (startPoint retracement_100_200) (endPoint retracement_100_200)
         (d_options retracement_100_200))"
  using fib_options_snap
  by (simp_all add: retracement_100_200_def fib_finalizeDrawingData_def fib_updateDrawingData_def
      fib_createDrawing_def blank_drawing_def Let_def snap_200)

lemma retracement_json:
  "fib_toJSON retracement_100_200
     = Some \<lparr>j_type = ''FibRetracement'',
          j_startPoint = \<lparr>time = Num (Fin 1), price = Num (Fin 100), screenX = Undefined, screenY = Undefined\<rparr>,
          j_endPoint = \<lparr>time = Num (Fin 2), price = Num (Fin 200), screenX = Undefined, screenY = Undefined\<rparr>,
          j_levels = t_options (new_tool FibRetracement Map.empty) ''levels'',
          j_options = t_options (new_tool FibRetracement Map.empty),
          j_timestamp = 1700000000000\<rparr>"
  by (simp add: fib_toJSON_def retracement_fields)

text \<open>
  C6 (as amended). Serialization keeps the two anchors' time and price, the options and
  the timestamp of a drawing and nothing else, so no derived field ever reaches storage
  or is read back from it. Deserializing the serialization of a drawing \<open>d\<close> gives a
  drawing whose anchors have \<open>d\<close>'s times and prices and whose options are the tool's
  options overridden by \<open>d\<close>'s (exactly \<open>d\<close>'s when \<open>d\<close> has a value for every option of
  the tool, as every drawing the tool created has). The TrendLine deserializer
  recomputes no derived field: line length, angle, slope, price difference and time
  difference are left unset. The Fibonacci deserializer recomputes the level table from
  the anchors, and the table is the one computed from \<open>d\<close>'s anchors and options when
  \<open>d\<close>'s \<open>levels\<close> and \<open>levelColors\<close> options are the tool's; it leaves price range,
  price difference and time difference unset.
\<close>

theorem round_trip_keeps_anchors_and_options:
  "tl_toJSON (d\<lparr>lineLength := a1, angle := a2, slope := a3, priceDifference := a4,
                timeDifference := a5\<rparr>) = tl_toJSON d
   \<and> fib_toJSON (f\<lparr>levels := b1, priceRange := b2, priceDifference := b3,
                   timeDifference := b4\<rparr>) = fib_toJSON f
   \<and> (tl_toJSON d = Some j \<longrightarrow>
        (let d' = tl_fromJSON trend j m now in
           map_option time (startPoint d') = map_option time (startPoint d)
         \<and> map_option price (startPoint d') = map_option price (startPoint d)
         \<and> map_option time (endPoint d') = map_option time (endPoint d)
         \<and> map_option price (endPoint d') = map_option price (endPoint d)
         \<and> d_options d' = t_options trend ++ d_options d
         \<and> (dom (t_options trend) \<subseteq> dom (d_options d) \<longrightarrow> d_options d' = d_options d)
         \<and> lineLength d' = Undefined \<and> angle d' = Undefined \<and> slope d' = Undefined
         \<and> priceDifference d' = Undefined \<and> timeDifference d' = Undefined))
   \<and> (fib_toJSON f = Some k \<longrightarrow>
        (let f' = fib_fromJSON fibo k m now in
           map_option time (startPoint f') = map_option time (startPoint f)
         \<and> map_option price (startPoint f') = map_option price (startPoint f)
         \<and> map_option time (endPoint f') = map_option time (endPoint f)
         \<and> map_option price (endPoint f') = map_option price (endPoint f)
         \<and> d_options f' = t_options fibo ++ d_options f
         \<and> (dom (t_options fibo) \<subseteq> dom (d_options f) \<longrightarrow> d_options f' = d_options f)
         \<and> priceRange f' = Undefined \<and> priceDifference f' = Undefined
         \<and> timeDifference f' = Undefined
         \<and> (d_options f ''levels'' = t_options fibo ''levels''
              \<and> d_options f ''levelColors'' = t_options fibo ''levelColors'' \<longrightarrow>
             levels f' = Some (calculateFibLevels fibo (startPoint f) (endPoint f) (d_options f)))))"
proof (intro conjI impI)
  show "tl_toJSON (d\<lparr>lineLength := a1, angle := a2, slope := a3, priceDifference := a4,
                timeDifference := a5\<rparr>) = tl_toJSON d"
    by (simp add: tl_toJSON_def split: option.splits)
  show "fib_toJSON (f\<lparr>levels := b1, priceRange := b2, priceDifference := b3,
                   timeDifference := b4\<rparr>) = fib_toJSON f"
    by (simp add: fib_toJSON_def split: option.splits)
next
  assume t: "tl_toJSON d = Some j"
  show "let d' = tl_fromJSON trend j m now in
           map_option time (startPoint d') = map_option time (startPoint d)
         \<and> map_option price (startPoint d') = map_option price (startPoint d)
         \<and> map_option time (endPoint d') = map_option time (endPoint d)
         \<and> map_option price (endPoint d') = map_option price (endPoint d)
         \<and> d_options d' = t_options trend ++ d_options d
         \<and> (dom (t_options trend) \<subseteq> dom (d_options d) \<longrightarrow> d_options d' = d_options d)
         \<and> lineLength d' = Undefined \<and> angle d' = Undefined \<and> slope d' = Undefined
         \<and> priceDifference d' = Undefined \<and> timeDifference d' = Undefined"
    unfolding Let_def
    using tl_round_trip [OF t, of trend m now]
    by (simp add: map_add_absorb)
next
  assume t: "fib_toJSON f = Some k"
  show "let f' = fib_fromJSON fibo k m now in
           map_option time (startPoint f') = map_option time (startPoint f)
         \<and> map_option price (startPoint f') = map_option price (startPoint f)
         \<and> map_option time (endPoint f') = map_option time (endPoint f)
         \<and> map_option price (endPoint f') = map_option price (endPoint f)
         \<and> d_options f' = t_options fibo ++ d_options f
         \<and> (dom (t_options fibo) \<subseteq> dom (d_options f) \<longrightarrow> d_options f' = d_options f)
         \<and> priceRange f' = Undefined \<and> priceDifference f' = Undefined
         \<and> timeDifference f' = Undefined
         \<and> (d_options f ''levels'' = t_options fibo ''levels''
              \<and> d_options f ''levelColors'' = t_options fibo ''levelColors'' \<longrightarrow>
             levels f' = Some (calculateFibLevels fibo (startPoint f) (endPoint f) (d_options f)))"
    unfolding Let_def
    using fib_round_trip [OF t, of fibo m now] fib_round_trip_levels [OF t, of fibo m now]
    by (simp add: map_add_absorb)
qed

theorem round_trip_keeps_anchors_and_options_witness:
  "map_option (\<lambda>j. map_option price
       (startPoint (tl_fromJSON (new_tool TrendLine Map.empty) j time_axis_mapper 0)))
     (tl_toJSON rising_line) = Some (Some (Num (Fin 100)))
   \<and> map_option (\<lambda>j. map_option price
       (endPoint (tl_fromJSON (new_tool TrendLine Map.empty) j time_axis_mapper 0)))
     (tl_toJSON rising_line) = Some (Some (Num (Fin 110)))
   \<and> map_option (\<lambda>j. d_options (tl_fromJSON (new_tool TrendLine Map.empty) j time_axis_mapper 0))
     (tl_toJSON rising_line) = Some (d_options rising_line)
   \<and> map_option (\<lambda>k. d_options (fib_fromJSON (new_tool FibRetracement Map.empty) k time_axis_mapper 0))
     (fib_toJSON retracement_100_200) = Some (d_options retracement_100_200)
   \<and> map_option (\<lambda>k. levels (fib_fromJSON (new_tool FibRetracement Map.empty) k time_axis_mapper 0))
     (fib_toJSON retracement_100_200) = Some (levels retracement_100_200)"
proof -
  obtain j where j: "tl_toJSON rising_line = Some j"
    using rising_line_json by blast
  obtain k where k: "fib_toJSON retracement_100_200 = Some k"
    using retracement_json by blast
  note t = round_trip_keeps_anchors_and_options
    [where d = rising_line and f = retracement_100_200 and j = j and k = k
       and trend = "new_tool TrendLine Map.empty" and fibo = "new_tool FibRetracement Map.empty"
       and m = time_axis_mapper and now = 0]
  note T = t [THEN conjunct2, THEN conjunct2, THEN conjunct1, THEN mp, OF j, unfolded Let_def]
  note F = t [THEN conjunct2, THEN conjunct2, THEN conjunct2, THEN mp, OF k, unfolded Let_def]
  have o: "d_options retracement_100_200 ''levels''
             = t_options (new_tool FibRetracement Map.empty) ''levels''
           \<and> d_options retracement_100_200 ''levelColors''
             = t_options (new_tool FibRetracement Map.empty) ''levelColors''"
    "dom (t_options (new_tool FibRetracement Map.empty)) \<subseteq> dom (d_options retracement_100_200)"
    by (simp_all add: retracement_fields)
  from T have a: "map_option price
       (startPoint (tl_fromJSON (new_tool TrendLine Map.empty) j time_axis_mapper 0))
         = map_option price (startPoint rising_line)"
    by blast
  from T have b: "map_option price
       (endPoint (tl_fromJSON (new_tool TrendLine Map.empty) j time_axis_mapper 0))
         = map_option price (endPoint rising_line)"
    by blast
  from T tl_tool_dom have c: "d_options (tl_fromJSON (new_tool TrendLine Map.empty) j time_axis_mapper 0)
         = d_options rising_line"
    by blast
  from F o(2) have d: "d_options (fib_fromJSON (new_tool FibRetracement Map.empty) k time_axis_mapper 0)
         = d_options retracement_100_200"
    by blast
  from F o(1) have e: "levels (fib_fromJSON (new_tool FibRetracement Map.empty) k time_axis_mapper 0)
         = Some (calculateFibLevels (new_tool FibRetracement Map.empty)
             (startPoint retracement_100_200) (endPoint retracement_100_200)
             (d_options retracement_100_200))"
    by blast
  show ?thesis
    unfolding j k option.map a b c d e
    by (simp add: rising_line_fields retracement_fields(7) [symmetric])
qed

text \<open>
  The claim as stated fails on the derived fields: \<open>rising_line\<close> is a finalized trend
  line whose line length is 100 and whose price difference is 10, both computed from its
  anchors; after serialization and deserialization, with a mapper that gives its anchors
  their screen positions back, neither field is set.
\<close>

theorem round_trip_loses_derived_fields_counterexample:
  "lineLength rising_line = Num (Fin 100)
   \<and> priceDifference rising_line = Num (Fin 10)
   \<and> map_option (\<lambda>j. startPoint (tl_fromJSON (new_tool TrendLine Map.empty) j time_axis_mapper 0))
       (tl_toJSON rising_line) = Some (startPoint rising_line)
   \<and> map_option (\<lambda>j. endPoint (tl_fromJSON (new_tool TrendLine Map.empty) j time_axis_mapper 0))
       (tl_toJSON rising_line) = Some (endPoint rising_line)
   \<and> map_option (\<lambda>j. lineLength (tl_fromJSON (new_tool TrendLine Map.empty) j time_axis_mapper 0))
       (tl_toJSON rising_line) = Some Undefined
   \<and> map_option (\<lambda>j. priceDifference (tl_fromJSON (new_tool TrendLine Map.empty) j time_axis_mapper 0))
       (tl_toJSON rising_line) = Some Undefined
   \<and> map_option (\<lambda>k. priceRange (fib_fromJSON (new_tool FibRetracement Map.empty) k time_axis_mapper 0))
       (fib_toJSON retracement_100_200) = Some Undefined
   \<and> priceRange retracement_100_200 = Num (Fin 100)"
  by (simp add: rising_line_json retracement_json rising_line_fields retracement_fields(6)
      tl_fromJSON_def fib_fromJSON_def blank_drawing_def Let_def time_axis_mapper_def)

end
